theory Spec2Isabelle
  imports Complex_Main "HOL-Library.Char_ord" "HOL-Library.List_Lexorder"
begin

section \<open>Pulselytics: the predictive and anomaly analytics engine\<close>

text \<open>
  A shallow embedding of \<^verbatim>\<open>backend/ml_models\<close>: the model store (\<^verbatim>\<open>storage.py\<close>), the
  feature builder (\<^verbatim>\<open>features.py\<close>), the engagement predictor (\<^verbatim>\<open>predictor.py\<close>) and
  the anomaly detector (\<^verbatim>\<open>anomaly_detector.py\<close>).

  Python exceptions are values of \<open>exn\<close>; a function that can raise returns \<open>exn + 'a\<close>
  with \<open>Inl\<close> for the exception. A function that mutates its argument returns the
  mutated argument next to its result.
\<close>

datatype exn =
    KeyError string
  | AttributeError
  | IndexError
  | TypeError
  | ValueError
  | OverflowError

subsection \<open>Numbers\<close>

text \<open>
  A numeric cell of a dataframe and a Python float: a finite number, an infinity or NaN.
  Finite arithmetic is exact arithmetic on the reals (no rounding, no overflow) and
  zero is unsigned.
\<close>

datatype fl = NaN | PInf | NInf | Fin real

fun fl_neg :: "fl \<Rightarrow> fl" where
  "fl_neg NaN = NaN"
| "fl_neg PInf = NInf"
| "fl_neg NInf = PInf"
| "fl_neg (Fin a) = Fin (- a)"

fun fl_add :: "fl \<Rightarrow> fl \<Rightarrow> fl" where
  "fl_add NaN _ = NaN"
| "fl_add _ NaN = NaN"
| "fl_add PInf NInf = NaN"
| "fl_add NInf PInf = NaN"
| "fl_add PInf _ = PInf"
| "fl_add _ PInf = PInf"
| "fl_add NInf _ = NInf"
| "fl_add _ NInf = NInf"
| "fl_add (Fin a) (Fin b) = Fin (a + b)"

definition fl_sub :: "fl \<Rightarrow> fl \<Rightarrow> fl" where
  "fl_sub a b = fl_add a (fl_neg b)"

text \<open>The sign of a float that is not NaN: \<open>-1\<close>, \<open>0\<close> or \<open>1\<close>.\<close>

fun fl_sign :: "fl \<Rightarrow> int" where
  "fl_sign NaN = 0"
| "fl_sign PInf = 1"
| "fl_sign NInf = - 1"
| "fl_sign (Fin a) = (if a < 0 then - 1 else if a = 0 then 0 else 1)"

definition inf_of_sign :: "int \<Rightarrow> fl" where
  "inf_of_sign s = (if s < 0 then NInf else if s = 0 then NaN else PInf)"

fun is_inf :: "fl \<Rightarrow> bool" where
  "is_inf PInf = True"
| "is_inf NInf = True"
| "is_inf _ = False"

fun fl_mul :: "fl \<Rightarrow> fl \<Rightarrow> fl" where
  "fl_mul NaN _ = NaN"
| "fl_mul _ NaN = NaN"
| "fl_mul (Fin a) (Fin b) = Fin (a * b)"
| "fl_mul x y = inf_of_sign (fl_sign x * fl_sign y)"

text \<open>
  Division of numpy floats: a division by zero does not raise, it gives an infinity
  (or NaN for \<open>0 / 0\<close>).
\<close>

fun fl_div :: "fl \<Rightarrow> fl \<Rightarrow> fl" where
  "fl_div NaN _ = NaN"
| "fl_div _ NaN = NaN"
| "fl_div (Fin a) (Fin b) = (if b = 0 then inf_of_sign (fl_sign (Fin a)) else Fin (a / b))"
| "fl_div (Fin a) _ = Fin 0"
| "fl_div x (Fin b) = inf_of_sign (fl_sign x * (if b < 0 then - 1 else 1))"
| "fl_div _ _ = NaN"

text \<open>Comparisons: every comparison with NaN is false.\<close>

fun fl_less :: "fl \<Rightarrow> fl \<Rightarrow> bool" where
  "fl_less NaN _ = False"
| "fl_less _ NaN = False"
| "fl_less (Fin a) (Fin b) = (a < b)"
| "fl_less NInf NInf = False"
| "fl_less NInf _ = True"
| "fl_less _ PInf = True"
| "fl_less _ _ = False"

definition fl_greater :: "fl \<Rightarrow> fl \<Rightarrow> bool" where
  "fl_greater a b = fl_less b a"

fun isnan :: "fl \<Rightarrow> bool" where
  "isnan NaN = True"
| "isnan _ = False"

text \<open>\<^verbatim>\<open>Series.fillna(v)\<close> and \<^verbatim>\<open>Series.replace(a, b)\<close> on a numeric column.\<close>

definition fillna :: "fl \<Rightarrow> fl list \<Rightarrow> fl list" where
  "fillna v xs = map (\<lambda>x. if isnan x then v else x) xs"

definition replace_val :: "fl \<Rightarrow> fl \<Rightarrow> fl list \<Rightarrow> fl list" where
  "replace_val a b xs = map (\<lambda>x. if x = a then b else x) xs"

subsection \<open>Model store (\<^verbatim>\<open>storage.py\<close>)\<close>

text \<open>
  A registry entry is the dictionary \<^verbatim>\<open>{'version': version, **metadata}\<close>. The registry
  document on disk is absent, unreadable (opening or parsing it raises) or a
  dictionary from artifact names to entries. A payload file holds a pickled object or
  bytes that \<^verbatim>\<open>joblib.load\<close> rejects. Paths are relative to the store directory,
  which exists. \<open>features_doc\<close> is the document
  \<^verbatim>\<open>predictor_features.json\<close> with the feature names, when it exists.
\<close>

datatype jvalue = JStr string | JInt int | JNum fl | JDict "(string \<times> fl) list"

record entry =
  version :: "string option"
  metadata :: "(string \<times> jvalue) list"

datatype registry_file = NoFile | Unreadable | Doc "string \<rightharpoonup> entry"

datatype 'm payload = Corrupt | Pickled 'm

record 'm store =
  joblib_available :: bool
  writable :: bool
  registry_doc :: registry_file
  payloads :: "string \<rightharpoonup> 'm payload"
  features_doc :: "string list option"

text \<open>\<^verbatim>\<open>json.load\<close> on the registry document and \<^verbatim>\<open>joblib.load\<close> on a payload file.\<close>

fun json_load :: "registry_file \<Rightarrow> exn + (string \<rightharpoonup> entry)" where
  "json_load (Doc r) = Inr r"
| "json_load _ = Inl ValueError"

fun joblib_load :: "'m payload \<Rightarrow> exn + 'm" where
  "joblib_load (Pickled m) = Inr m"
| "joblib_load Corrupt = Inl ValueError"

definition load_registry :: "'m store \<Rightarrow> (string \<rightharpoonup> entry)" where
  "load_registry st =
     (if registry_doc st \<noteq> NoFile then
        (case json_load (registry_doc st) of Inr r \<Rightarrow> r | Inl e \<Rightarrow> Map.empty)
      else Map.empty)"

text \<open>\<^verbatim>\<open>f"{name}_v{version}.joblib"\<close>, relative to the store directory.\<close>

definition py_str_opt :: "string option \<Rightarrow> string" where
  "py_str_opt v = (case v of None \<Rightarrow> ''None'' | Some s \<Rightarrow> s)"

definition model_filepath :: "string \<Rightarrow> string option \<Rightarrow> string" where
  "model_filepath name ver = name @ ''_v'' @ py_str_opt ver @ ''.joblib''"

text \<open>An empty dictionary is falsy.\<close>

definition entry_falsy :: "entry \<Rightarrow> bool" where
  "entry_falsy e = (version e = None \<and> metadata e = [])"

definition load_model :: "'m store \<Rightarrow> string \<Rightarrow> exn + 'm option" where
  "load_model st name =
     (let reg = load_registry st in
      case reg name of
        None \<Rightarrow> Inr None
      | Some e \<Rightarrow>
          if entry_falsy e \<or> \<not> joblib_available st then Inr None
          else
            (let path = model_filepath name (version e) in
             case payloads st path of
               None \<Rightarrow> Inr None
             | Some f \<Rightarrow>
                 (case joblib_load f of Inr m \<Rightarrow> Inr (Some m) | Inl ex \<Rightarrow> Inr None)))"

text \<open>
  \<^verbatim>\<open>save_model\<close>: the whole body is inside \<^verbatim>\<open>try\<close>; a store that cannot be written makes
  \<^verbatim>\<open>joblib.dump\<close> raise, and the function returns \<^verbatim>\<open>False\<close>.
\<close>

definition save_model ::
  "'m store \<Rightarrow> string \<Rightarrow> string \<Rightarrow> 'm \<Rightarrow> (string \<times> jvalue) list \<Rightarrow> 'm store \<times> bool" where
  "save_model st name ver m meta =
     (if \<not> joblib_available st then (st, False)
      else if \<not> writable st then (st, False)
      else
        (let st1 = st\<lparr>payloads := (payloads st)(model_filepath name (Some ver) \<mapsto> Pickled m)\<rparr>;
             reg = load_registry st1;
             reg' = reg(name \<mapsto> \<lparr>version = Some ver, metadata = meta\<rparr>)
         in (st1\<lparr>registry_doc := Doc reg'\<rparr>, True)))"

text \<open>
  \<^verbatim>\<open>save_feature_names\<close> is best effort: a failed write is swallowed.
  \<^verbatim>\<open>load_feature_names\<close> gives the empty list when the document is not there.
\<close>

definition save_feature_names :: "'m store \<Rightarrow> string list \<Rightarrow> 'm store" where
  "save_feature_names st names = (if writable st then st\<lparr>features_doc := Some names\<rparr> else st)"

definition load_feature_names :: "'m store \<Rightarrow> string list" where
  "load_feature_names st = (case features_doc st of None \<Rightarrow> [] | Some names \<Rightarrow> names)"

subsection \<open>Strings, timestamps and frames\<close>

text \<open>
  A Python \<^verbatim>\<open>str\<close> is a list of Unicode code points, so that \<^verbatim>\<open>len\<close> and \<^verbatim>\<open>ord\<close> are
  what Python computes. Column names and platform names are plain ASCII strings.
\<close>

type_synonym ustr = "nat list"

definition ascii :: "string \<Rightarrow> ustr" where
  "ascii s = map of_char s"

text \<open>\<^verbatim>\<open>pat in s\<close> for strings.\<close>

fun str_contains :: "ustr \<Rightarrow> ustr \<Rightarrow> bool" where
  "str_contains pat [] = (pat = [])"
| "str_contains pat (c # cs) = (take (length pat) (c # cs) = pat \<or> str_contains pat cs)"

text \<open>\<^verbatim>\<open>str.isspace\<close> on one code point, and \<^verbatim>\<open>str.split()\<close> with no separator.\<close>

definition is_space :: "nat \<Rightarrow> bool" where
  "is_space c = ((9 \<le> c \<and> c \<le> 13) \<or> (28 \<le> c \<and> c \<le> 32) \<or> c = 133 \<or> c = 160 \<or> c = 5760
                 \<or> (8192 \<le> c \<and> c \<le> 8202) \<or> c = 8232 \<or> c = 8233 \<or> c = 8239
                 \<or> c = 8287 \<or> c = 12288)"

fun py_split :: "ustr \<Rightarrow> ustr \<Rightarrow> ustr list" where
  "py_split w [] = (if w = [] then [] else [w])"
| "py_split w (c # cs) =
     (if is_space c then (if w = [] then py_split [] cs else w # py_split [] cs)
      else py_split (w @ [c]) cs)"

text \<open>
  A timestamp with the accessors the code reads: \<^verbatim>\<open>.dt.hour\<close>, \<^verbatim>\<open>.dt.month\<close> and
  \<^verbatim>\<open>.dt.dayofweek\<close>, which pandas numbers from Monday = 0 to Sunday = 6. The day of the
  week is computed from the proleptic Gregorian date; day 0 is Thursday 1970-01-01.
\<close>

record timestamp =
  ts_year :: int
  ts_month :: int
  ts_day :: int
  ts_hour :: int

definition days_from_civil :: "int \<Rightarrow> int \<Rightarrow> int \<Rightarrow> int" where
  "days_from_civil y m d =
     (let y' = (if m \<le> 2 then y - 1 else y);
          era = y' div 400;
          yoe = y' - era * 400;
          doy = (153 * (if m > 2 then m - 3 else m + 9) + 2) div 5 + d - 1;
          doe = yoe * 365 + yoe div 4 - yoe div 100 + doy
      in era * 146097 + doe - 719468)"

definition dayofweek :: "timestamp \<Rightarrow> int" where
  "dayofweek t = (days_from_civil (ts_year t) (ts_month t) (ts_day t) + 3) mod 7"

text \<open>
  A cell of the \<^verbatim>\<open>upload_date\<close> column: missing, a value that \<^verbatim>\<open>pd.to_datetime\<close> cannot
  parse, or a value that it parses to a timestamp. With \<^verbatim>\<open>errors='coerce'\<close> the first two
  become NaT.
\<close>

datatype date_cell = Missing | Unparseable | Parses timestamp

fun to_datetime :: "date_cell \<Rightarrow> timestamp option" where
  "to_datetime (Parses t) = Some t"
| "to_datetime _ = None"

text \<open>The \<^verbatim>\<open>.dt\<close> accessors give NaN on NaT.\<close>

definition dt_field :: "(timestamp \<Rightarrow> int) \<Rightarrow> timestamp option \<Rightarrow> fl" where
  "dt_field f d = (case d of None \<Rightarrow> NaN | Some t \<Rightarrow> Fin (of_int (f t)))"

text \<open>
  A frame of post records: the number of rows and the columns that this code reads or
  writes, each absent (\<open>None\<close>) or holding one cell per row; \<open>df_other\<close> counts the
  columns that it never touches. The index is the default one, \<open>0 .. n - 1\<close>, so a
  series made by \<^verbatim>\<open>pd.Series([v] * len(df))\<close> lines up with the rows of the frame.
\<close>

record dataframe =
  df_len :: nat
  df_other :: nat
  c_likes :: "fl list option"
  c_comments :: "fl list option"
  c_views :: "fl list option"
  c_followers :: "fl list option"
  c_shares :: "fl list option"
  c_responsiveness_index :: "fl list option"
  c_peak_performance :: "fl list option"
  c_caption :: "ustr option list option"
  c_platform :: "string option list option"
  c_upload_date :: "date_cell list option"
  c_post_url :: "string option list option"

definition present :: "'a option \<Rightarrow> nat" where
  "present c = (case c of None \<Rightarrow> 0 | Some _ \<Rightarrow> 1)"

definition df_ncols :: "dataframe \<Rightarrow> nat" where
  "df_ncols df =
     df_other df + present (c_likes df) + present (c_comments df) + present (c_views df)
     + present (c_followers df) + present (c_shares df) + present (c_responsiveness_index df)
     + present (c_peak_performance df) + present (c_caption df) + present (c_platform df)
     + present (c_upload_date df) + present (c_post_url df)"

text \<open>\<^verbatim>\<open>df.empty\<close>: no rows or no columns.\<close>

definition df_empty :: "dataframe \<Rightarrow> bool" where
  "df_empty df = (df_len df = 0 \<or> df_ncols df = 0)"

text \<open>Every column that is present has one cell per row.\<close>

definition col_ok :: "nat \<Rightarrow> 'a list option \<Rightarrow> bool" where
  "col_ok n c = (case c of None \<Rightarrow> True | Some xs \<Rightarrow> length xs = n)"

definition wf_frame :: "dataframe \<Rightarrow> bool" where
  "wf_frame df =
     (col_ok (df_len df) (c_likes df) \<and> col_ok (df_len df) (c_comments df)
      \<and> col_ok (df_len df) (c_views df) \<and> col_ok (df_len df) (c_followers df)
      \<and> col_ok (df_len df) (c_shares df) \<and> col_ok (df_len df) (c_responsiveness_index df)
      \<and> col_ok (df_len df) (c_peak_performance df) \<and> col_ok (df_len df) (c_caption df)
      \<and> col_ok (df_len df) (c_platform df) \<and> col_ok (df_len df) (c_upload_date df)
      \<and> col_ok (df_len df) (c_post_url df))"

subsection \<open>Feature tables and schema alignment (\<^verbatim>\<open>features.py\<close>)\<close>

text \<open>
  A feature table: the length of the index and the columns in order, each a name and
  one cell per row.
\<close>

record ftable =
  ft_index :: nat
  ft_cols :: "(string \<times> fl list) list"

definition ft_names :: "ftable \<Rightarrow> string list" where
  "ft_names t = map fst (ft_cols t)"

text \<open>
  Column assignment \<^verbatim>\<open>t[col] = ...\<close>: a new column goes last, an existing one is
  replaced where it stands.
\<close>

definition put_column :: "ftable \<Rightarrow> string \<Rightarrow> fl list \<Rightarrow> ftable" where
  "put_column t col xs =
     (if col \<in> set (ft_names t)
      then t\<lparr>ft_cols := map (\<lambda>p. if fst p = col then (col, xs) else p) (ft_cols t)\<rparr>
      else t\<lparr>ft_cols := ft_cols t @ [(col, xs)]\<rparr>)"

text \<open>\<^verbatim>\<open>t[col] = v\<close> for a scalar: one copy of \<open>v\<close> per row of the index.\<close>

definition set_scalar :: "ftable \<Rightarrow> string \<Rightarrow> fl \<Rightarrow> ftable" where
  "set_scalar t col v = put_column t col (replicate (ft_index t) v)"

text \<open>
  \<^verbatim>\<open>t[col] = series\<close>: a frame whose index is still empty takes the index of the first
  non-empty series assigned to it, and the columns it already has are filled with NaN
  along the new index; otherwise the series is read along the index of the frame.
\<close>

definition set_series :: "ftable \<Rightarrow> string \<Rightarrow> fl list \<Rightarrow> ftable" where
  "set_series t col xs =
     (let t1 = (if ft_index t = 0 \<and> xs \<noteq> []
                then \<lparr>ft_index = length xs,
                      ft_cols = map (\<lambda>p. (fst p, replicate (length xs) NaN)) (ft_cols t)\<rparr>
                else t)
      in put_column t1 col (take (ft_index t1) (xs @ replicate (ft_index t1) NaN)))"

text \<open>\<^verbatim>\<open>pd.concat([a, b], axis=1)\<close> for two tables on the same index.\<close>

definition concat_columns :: "ftable \<Rightarrow> ftable \<Rightarrow> ftable" where
  "concat_columns a b = a\<lparr>ft_cols := ft_cols a @ ft_cols b\<rparr>"

text \<open>
  \<^verbatim>\<open>pd.get_dummies(series, prefix=...)\<close>: one indicator column per distinct value, the
  values in sorted order.
\<close>

definition get_dummies :: "string \<Rightarrow> string list \<Rightarrow> ftable" where
  "get_dummies pre vals =
     \<lparr>ft_index = length vals,
      ft_cols = map (\<lambda>v. (pre @ ''_'' @ v, map (\<lambda>x. if x = v then Fin 1 else Fin 0) vals))
                    (sort (remdups vals))\<rparr>"

text \<open>\<^verbatim>\<open>Series.isin(vals).astype(int)\<close> and the truth value of a test as \<open>0\<close> or \<open>1\<close>.\<close>

definition as_int :: "bool \<Rightarrow> fl" where
  "as_int b = (if b then Fin 1 else Fin 0)"

definition isin :: "fl list \<Rightarrow> fl \<Rightarrow> bool" where
  "isin vals x = (\<not> isnan x \<and> x \<in> set vals)"

definition count_char :: "nat \<Rightarrow> ustr \<Rightarrow> nat" where
  "count_char c s = length (filter (\<lambda>x. x = c) s)"

definition emoji_count :: "ustr \<Rightarrow> nat" where
  "emoji_count s = length (filter (\<lambda>c. 0x1F300 < c \<and> c < 0x1F9FF) s)"

definition fl_of_nat :: "nat \<Rightarrow> fl" where
  "fl_of_nat n = Fin (of_nat n)"

text \<open>\<^verbatim>\<open>df.get(col, pd.Series([d] * len(df))).fillna(d)\<close> on a column of optional values.\<close>

definition get_filled :: "nat \<Rightarrow> 'a \<Rightarrow> 'a option list option \<Rightarrow> 'a list" where
  "get_filled n d c =
     (case c of None \<Rightarrow> replicate n d
      | Some xs \<Rightarrow> map (\<lambda>x. case x of None \<Rightarrow> d | Some v \<Rightarrow> v) xs)"

definition time_features :: "ftable \<Rightarrow> date_cell list option \<Rightarrow> ftable" where
  "time_features out ud =
     (case ud of
        Some col \<Rightarrow>
          (let dates = map to_datetime col;
               day_of_week = map (dt_field dayofweek) dates;
               out = set_series out ''hour_of_day'' (map (dt_field ts_hour) dates);
               out = set_series out ''day_of_week'' day_of_week;
               out = set_series out ''is_weekend''
                       (map (\<lambda>d. as_int (isin [Fin 5, Fin 6] d)) day_of_week);
               out = set_series out ''month'' (map (dt_field ts_month) dates)
           in out)
      | None \<Rightarrow>
          foldl (\<lambda>t c. set_scalar t c (Fin 0)) out
            [''hour_of_day'', ''day_of_week'', ''is_weekend'', ''month''])"

definition caption_features :: "ftable \<Rightarrow> ustr list \<Rightarrow> ftable" where
  "caption_features out captions =
     (let out = set_series out ''caption_length'' (map (\<lambda>s. fl_of_nat (length s)) captions);
          out = set_series out ''word_count'' (map (\<lambda>s. fl_of_nat (length (py_split [] s))) captions);
          out = set_series out ''hashtag_count'' (map (\<lambda>s. fl_of_nat (count_char 35 s)) captions);
          out = set_series out ''mention_count'' (map (\<lambda>s. fl_of_nat (count_char 64 s)) captions);
          out = set_series out ''emoji_count'' (map (\<lambda>s. fl_of_nat (emoji_count s)) captions);
          out = set_series out ''has_question'' (map (\<lambda>s. as_int (str_contains [63] s)) captions);
          out = set_series out ''has_exclamation'' (map (\<lambda>s. as_int (str_contains [33] s)) captions);
          out = set_series out ''has_url'' (map (\<lambda>s. as_int (str_contains (ascii ''http'') s)) captions)
      in out)"

definition build_features :: "dataframe \<Rightarrow> ftable" where
  "build_features df =
     (let out = \<lparr>ft_index = 0, ft_cols = []\<rparr> in
      if df_empty df then out
      else
        (let out = time_features out (c_upload_date df);
             captions = get_filled (df_len df) [] (c_caption df);
             out = caption_features out captions;
             platform_series = get_filled (df_len df) ''unknown'' (c_platform df);
             dummies = get_dummies ''platform'' platform_series;
             out = concat_columns out dummies;
             out = set_scalar out ''avg_engagement_rate'' (Fin (5 / 100))
         in out))"

text \<open>
  The sanitising step that both \<^verbatim>\<open>train\<close> and \<^verbatim>\<open>predict_post_performance\<close> apply to the
  builder's output: \<^verbatim>\<open>X.replace([np.inf, -np.inf], np.nan).fillna(0)\<close>.
\<close>

definition sanitize_cell :: "fl \<Rightarrow> fl" where
  "sanitize_cell x = (if isnan x \<or> is_inf x then Fin 0 else x)"

definition sanitize :: "ftable \<Rightarrow> ftable" where
  "sanitize t = t\<lparr>ft_cols := map (\<lambda>p. (fst p, map sanitize_cell (snd p))) (ft_cols t)\<rparr>"

definition ft_fillna0 :: "ftable \<Rightarrow> ftable" where
  "ft_fillna0 t = t\<lparr>ft_cols := map (\<lambda>p. (fst p, fillna (Fin 0) (snd p))) (ft_cols t)\<rparr>"

definition column :: "ftable \<Rightarrow> string \<Rightarrow> fl list option" where
  "column t c = map_of (ft_cols t) c"

text \<open>
  \<^verbatim>\<open>align_feature_columns\<close>. The loop writes \<^verbatim>\<open>current[col] = 0\<close> for every reference
  column that the table does not have.
\<close>

fun fill_missing :: "ftable \<Rightarrow> string list \<Rightarrow> ftable" where
  "fill_missing t [] = t"
| "fill_missing t (col # cols) =
     fill_missing (if col \<notin> set (ft_names t) then set_scalar t col (Fin 0) else t) cols"

text \<open>
  \<^verbatim>\<open>current[reference_columns]\<close>: a name that is not a column raises KeyError; a name
  that several columns carry selects all of them.
\<close>

definition select_columns :: "ftable \<Rightarrow> string list \<Rightarrow> exn + ftable" where
  "select_columns t refs =
     (case filter (\<lambda>c. c \<notin> set (ft_names t)) refs of
        c # _ \<Rightarrow> Inl (KeyError c)
      | [] \<Rightarrow> Inr (t\<lparr>ft_cols := concat (map (\<lambda>c. filter (\<lambda>p. fst p = c) (ft_cols t)) refs)\<rparr>))"

text \<open>The first component is the caller's table after the call: the loop writes into it.\<close>

definition align_feature_columns :: "ftable \<Rightarrow> string list \<Rightarrow> ftable \<times> (exn + ftable)" where
  "align_feature_columns current reference_columns =
     (let current' = fill_missing current reference_columns
      in (current', select_columns current' reference_columns))"

subsection \<open>Reading the time columns\<close>

text \<open>
  The four time-derived columns, and the cell that the builder computes for each of
  them from a parsed date (\<open>None\<close> is NaT).
\<close>

definition time_names :: "string list" where
  "time_names = [''hour_of_day'', ''day_of_week'', ''is_weekend'', ''month'']"

definition raw_time_cell :: "string \<Rightarrow> timestamp option \<Rightarrow> fl" where
  "raw_time_cell k d =
     (if k = ''hour_of_day'' then dt_field ts_hour d
      else if k = ''day_of_week'' then dt_field dayofweek d
      else if k = ''is_weekend'' then as_int (isin [Fin 5, Fin 6] (dt_field dayofweek d))
      else dt_field ts_month d)"

text \<open>The eight caption columns.\<close>

definition caption_names :: "string list" where
  "caption_names =
     [''caption_length'', ''word_count'', ''hashtag_count'', ''mention_count'',
      ''emoji_count'', ''has_question'', ''has_exclamation'', ''has_url'']"

text \<open>
  Row \<open>i\<close> has no usable upload date: the frame has no such column, or the cell is
  missing or does not parse.
\<close>

definition no_upload_date :: "dataframe \<Rightarrow> nat \<Rightarrow> bool" where
  "no_upload_date df i =
     (case c_upload_date df of None \<Rightarrow> True | Some col \<Rightarrow> to_datetime (col ! i) = None)"

text \<open>
  The one-row frame that \<^verbatim>\<open>predict_post_performance\<close> builds for a post:
  \<^verbatim>\<open>pd.DataFrame([{'platform': ..., 'caption': ..., 'upload_date': ...}])\<close>.
\<close>

definition one_post :: "ustr option \<Rightarrow> string option \<Rightarrow> date_cell \<Rightarrow> dataframe" where
  "one_post cap plat d =
     \<lparr>df_len = 1, df_other = 0, c_likes = None, c_comments = None, c_views = None,
      c_followers = None, c_shares = None, c_responsiveness_index = None,
      c_peak_performance = None, c_caption = Some [cap], c_platform = Some [plat],
      c_upload_date = Some [d], c_post_url = None\<rparr>"

text \<open>Saturday 2024-01-06, 13:00.\<close>

definition saturday :: timestamp where
  "saturday = \<lparr>ts_year = 2024, ts_month = 1, ts_day = 6, ts_hour = 13\<rparr>"

subsection \<open>Engagement predictor (\<^verbatim>\<open>predictor.py\<close>)\<close>

text \<open>Sequencing of calls that may raise.\<close>

definition and_then :: "exn + 'a \<Rightarrow> ('a \<Rightarrow> exn + 'b) \<Rightarrow> exn + 'b" where
  "and_then m f = (case m of Inl e \<Rightarrow> Inl e | Inr x \<Rightarrow> f x)"

text \<open>
  \<^verbatim>\<open>int(x)\<close> truncates towards zero; on NaN it raises ValueError and on an infinity
  OverflowError. \<^verbatim>\<open>round(x, n)\<close> rounds half to even.
\<close>

definition py_trunc :: "real \<Rightarrow> int" where
  "py_trunc x = (if 0 \<le> x then \<lfloor>x\<rfloor> else \<lceil>x\<rceil>)"

fun py_int :: "fl \<Rightarrow> exn + int" where
  "py_int NaN = Inl ValueError"
| "py_int (Fin x) = Inr (py_trunc x)"
| "py_int _ = Inl OverflowError"

definition py_round :: "real \<Rightarrow> int" where
  "py_round x =
     (let f = \<lfloor>x\<rfloor>; d = x - of_int f
      in if d < 1 / 2 then f else if 1 / 2 < d then f + 1 else if even f then f else f + 1)"

definition round_to :: "nat \<Rightarrow> real \<Rightarrow> real" where
  "round_to n x = of_int (py_round (x * 10 ^ n)) / 10 ^ n"

text \<open>
  The sklearn objects that the predictor holds are the functions they compute: a
  fitted scaler maps a feature table to a matrix (\<^verbatim>\<open>transform\<close>), a fitted regressor
  maps a matrix to one prediction per row (\<^verbatim>\<open>predict\<close>). Either may raise.
\<close>

type_synonym matrix = "fl list list"
type_synonym scaler = "ftable \<Rightarrow> exn + matrix"
type_synonym regressor = "matrix \<Rightarrow> exn + fl list"

text \<open>
  The predictor instance. \<open>engagement_dist\<close> holds \<^verbatim>\<open>_engagement_sorted\<close> and
  \<^verbatim>\<open>_engagement_quantiles\<close>, two attributes that exist only once \<^verbatim>\<open>train\<close> has set them
  (together).
\<close>

record predictor =
  model_likes :: "regressor option"
  model_comments :: "regressor option"
  model_views :: "regressor option"
  p_scaler :: "scaler option"
  p_is_trained :: bool
  feature_names :: "string list"
  engagement_dist :: "(fl list \<times> (string \<times> fl) list) option"

text \<open>
  The input of a prediction, a dictionary: \<open>None\<close> is a key that is absent. The
  scheduled time, when the key is there, is a cell as in the \<^verbatim>\<open>upload_date\<close> column.
\<close>

record post_data =
  pd_platform :: "string option"
  pd_caption :: "ustr option"
  pd_scheduled_time :: "date_cell option"

text \<open>
  The four recommendation texts of \<^verbatim>\<open>_get_recommendation\<close>: "Excellent! This content has
  high viral potential. Post immediately!", "Good performance expected. This is worth
  posting.", "Moderate performance. Consider improving caption or visuals." and "Low
  predicted engagement. Rework this content before posting.".
\<close>

datatype recommendation = Excellent | Good | Moderate | Low

record prediction =
  predicted_likes :: int
  predicted_comments :: int
  predicted_views :: int
  predicted_engagement_rate :: real
  virality_score :: int
  confidence :: string
  recommendation :: recommendation
  pred_note :: "string option"

definition get_recommendation :: "int \<Rightarrow> recommendation" where
  "get_recommendation virality =
     (if virality \<ge> 80 then Excellent
      else if virality \<ge> 60 then Good
      else if virality \<ge> 40 then Moderate
      else Low)"

text \<open>\<^verbatim>\<open>_fallback_prediction\<close>.\<close>

definition baselines :: "(string \<times> (int \<times> int \<times> int)) list" where
  "baselines =
     [(''instagram'', (5000, 150, 25000)),
      (''youtube'', (3000, 200, 100000)),
      (''facebook'', (2000, 100, 15000)),
      (''twitter'', (1500, 80, 50000))]"

definition get_or :: "'a \<Rightarrow> 'a option \<Rightarrow> 'a" where
  "get_or d v = (case v of None \<Rightarrow> d | Some x \<Rightarrow> x)"

text \<open>The block "Adjust for caption quality" of \<^verbatim>\<open>_fallback_prediction\<close>.\<close>

definition caption_quality :: "post_data \<Rightarrow> real" where
  "caption_quality post =
     (let caption_length = length (get_or [] (pd_caption post));
          multiplier = 1;
          multiplier = (if caption_length > 100 then multiplier + 2 / 10 else multiplier);
          multiplier = (if str_contains [35] (get_or [] (pd_caption post))
                        then multiplier + 1 / 10 else multiplier);
          multiplier = (if str_contains [33] (get_or [] (pd_caption post))
                           \<or> str_contains [63] (get_or [] (pd_caption post))
                        then multiplier + 1 / 10 else multiplier)
      in multiplier)"

definition fallback_prediction :: "post_data \<Rightarrow> prediction" where
  "fallback_prediction post =
     (let platform = get_or ''instagram'' (pd_platform post);
          base = get_or (5000, 150, 25000) (map_of baselines platform);
          multiplier = caption_quality post;
          pred_likes = py_trunc (of_int (fst base) * multiplier);
          pred_comments = py_trunc (of_int (fst (snd base)) * multiplier);
          pred_views = py_trunc (of_int (snd (snd base)) * multiplier);
          engagement_rate =
            (if pred_views > 0
             then (of_int (pred_likes + pred_comments) / of_int pred_views) * 100 else 5);
          virality = min 100 (py_trunc (engagement_rate * 10))
      in \<lparr>predicted_likes = pred_likes,
          predicted_comments = pred_comments,
          predicted_views = pred_views,
          predicted_engagement_rate = round_to 2 engagement_rate,
          virality_score = virality,
          confidence = ''low'',
          recommendation = get_recommendation virality,
          pred_note = Some ''Prediction based on platform averages (model not trained yet)''\<rparr>)"

text \<open>
  The percentile-based virality score of the trained path. The whole block is inside
  \<^verbatim>\<open>try ... except Exception: pass\<close>, and nothing in it raises once the two attributes
  exist. \<^verbatim>\<open>arr.searchsorted(total, side='right')\<close> on the sorted array is the number of
  entries that are at most \<open>total\<close>.
\<close>

definition fl_le :: "fl \<Rightarrow> fl \<Rightarrow> bool" where
  "fl_le a b = (fl_less a b \<or> (\<not> isnan a \<and> a = b))"

definition truthy_or :: "fl \<Rightarrow> fl \<Rightarrow> fl" where
  "truthy_or v d = (if v = Fin 0 then d else v)"

definition trained_virality ::
  "(fl list \<times> (string \<times> fl) list) option \<Rightarrow> int \<Rightarrow> int \<Rightarrow> real \<Rightarrow> int" where
  "trained_virality edist pred_likes pred_comments engagement_rate =
     (case edist of
        None \<Rightarrow> 50
      | Some (arr, quantiles) \<Rightarrow>
          if arr = [] then 50
          else
            (let predicted_total = pred_likes + pred_comments;
                 rank = (of_nat (length (filter (\<lambda>x. fl_le x (Fin (of_int predicted_total))) arr))
                         / of_nat (length arr)) * 100;
                 virality = py_trunc rank;
                 median = truthy_or (get_or (Fin 1) (map_of quantiles ''q50'')) (Fin 1)
             in if fl_greater (Fin (of_int predicted_total)) median \<and> engagement_rate > 5
                then min 100 (virality + 5) else virality))"

text \<open>
  \<^verbatim>\<open>model.predict(X_scaled)[0]\<close> for the one-row frame of a post: build the features,
  sanitise, align to the persisted schema, scale, predict, take the first entry.
\<close>

definition first_entry :: "fl list \<Rightarrow> exn + fl" where
  "first_entry ys = (case ys of [] \<Rightarrow> Inl IndexError | y # _ \<Rightarrow> Inr y)"

definition scaled_features :: "timestamp \<Rightarrow> predictor \<Rightarrow> post_data \<Rightarrow> exn + matrix" where
  "scaled_features now p post =
     (let df = one_post (Some (get_or [] (pd_caption post)))
                 (Some (get_or ''instagram'' (pd_platform post)))
                 (get_or (Parses now) (pd_scheduled_time post));
          X_raw = sanitize (build_features df)
      in and_then (snd (align_feature_columns X_raw (feature_names p)))
           (\<lambda>X. case p_scaler p of
                   None \<Rightarrow> Inl AttributeError
                 | Some transform \<Rightarrow> transform (ft_fillna0 X)))"

definition raw_output :: "regressor option \<Rightarrow> matrix \<Rightarrow> exn + fl" where
  "raw_output model X_scaled =
     (case model of
        None \<Rightarrow> Inl AttributeError
      | Some predict \<Rightarrow> and_then (predict X_scaled) first_entry)"

text \<open>
  The rest of \<^verbatim>\<open>predict_post_performance\<close> once the three numbers are there: engagement
  rate, virality score and the result dictionary.
\<close>

definition prediction_result :: "predictor \<Rightarrow> int \<Rightarrow> int \<Rightarrow> int \<Rightarrow> prediction" where
  "prediction_result p pred_likes pred_comments pred_views =
     (let engagement_rate =
            (if pred_views > 0
             then (of_int (pred_likes + pred_comments) / of_int pred_views) * 100 else 5);
          virality = trained_virality (engagement_dist p) pred_likes pred_comments
                       engagement_rate
      in \<lparr>predicted_likes = pred_likes,
          predicted_comments = pred_comments,
          predicted_views = pred_views,
          predicted_engagement_rate = round_to 2 engagement_rate,
          virality_score = virality,
          confidence = (if p_is_trained p then ''high'' else ''medium''),
          recommendation = get_recommendation virality,
          pred_note = None\<rparr>)"

text \<open>\<^verbatim>\<open>max(0, int(model.predict(X_scaled)[0]))\<close>.\<close>

definition clamped_output :: "regressor option \<Rightarrow> matrix \<Rightarrow> exn + int" where
  "clamped_output model X_scaled =
     and_then (and_then (raw_output model X_scaled) py_int) (\<lambda>v. Inr (max 0 v))"

definition predict_post_performance :: "timestamp \<Rightarrow> predictor \<Rightarrow> post_data \<Rightarrow> exn + prediction" where
  "predict_post_performance now p post =
     (if \<not> p_is_trained p then Inr (fallback_prediction post)
      else
        and_then (scaled_features now p post) (\<lambda>X_scaled.
        and_then (clamped_output (model_likes p) X_scaled) (\<lambda>pred_likes.
        and_then (clamped_output (model_comments p) X_scaled) (\<lambda>pred_comments.
        and_then (case model_views p of
                    Some mv \<Rightarrow> clamped_output (Some mv) X_scaled
                  | None \<Rightarrow> Inr (pred_likes * 5)) (\<lambda>pred_views.
          Inr (prediction_result p pred_likes pred_comments pred_views))))))"

text \<open>
  \<^verbatim>\<open>EngagementPredictor.__init__\<close>: nothing is fitted; the scaler is a fresh
  \<^verbatim>\<open>StandardScaler()\<close>, whose \<^verbatim>\<open>transform\<close> raises, or \<^verbatim>\<open>None\<close> without scikit-learn.
\<close>

definition new_predictor :: "bool \<Rightarrow> predictor" where
  "new_predictor sklearn_available =
     \<lparr>model_likes = None, model_comments = None, model_views = None,
      p_scaler = (if sklearn_available then Some (\<lambda>X. Inl ValueError) else None),
      p_is_trained = False, feature_names = [], engagement_dist = None\<rparr>"


definition engagement_rate_of :: "int \<Rightarrow> int \<Rightarrow> int \<Rightarrow> real" where
  "engagement_rate_of l c v = (if v > 0 then of_int (l + c) / of_int v * 100 else 5)"


text \<open>Whether the fitted objects answer a post with finite numbers.\<close>

definition finite_output :: "regressor option \<Rightarrow> matrix \<Rightarrow> bool" where
  "finite_output model X = (\<exists>y. raw_output model X = Inr (Fin y))"

definition models_answer :: "timestamp \<Rightarrow> predictor \<Rightarrow> post_data \<Rightarrow> bool" where
  "models_answer now p post =
     (\<exists>X. scaled_features now p post = Inr X
        \<and> finite_output (model_likes p) X \<and> finite_output (model_comments p) X
        \<and> (model_views p = None \<or> finite_output (model_views p) X))"

text \<open>
  A trained predictor without a views model whose likes model answers 2.7 and whose
  comments model answers -1.5, and a post.
\<close>

definition example_predictor :: predictor where
  "example_predictor =
     \<lparr>model_likes = Some (\<lambda>X. Inr [Fin (27 / 10)]),
      model_comments = Some (\<lambda>X. Inr [Fin (- 3 / 2)]),
      model_views = None,
      p_scaler = Some (\<lambda>t. Inr [[Fin 0]]),
      p_is_trained = True,
      feature_names = [''caption_length'', ''platform_youtube''],
      engagement_dist = None\<rparr>"


definition example_post :: post_data where
  "example_post =
     \<lparr>pd_platform = Some ''instagram'', pd_caption = Some (ascii ''Hi''),
      pd_scheduled_time = Some Missing\<rparr>"

subsection \<open>Column statistics\<close>

text \<open>
  \<^verbatim>\<open>Series.mean()\<close>, \<^verbatim>\<open>Series.std()\<close> (sample standard deviation) and \<^verbatim>\<open>Series.max()\<close> skip
  NaN; on no value at all (for \<^verbatim>\<open>std\<close>: on fewer than two) they give NaN.
\<close>

definition dropna :: "fl list \<Rightarrow> fl list" where
  "dropna xs = filter (\<lambda>x. \<not> isnan x) xs"

definition fl_sum :: "fl list \<Rightarrow> fl" where
  "fl_sum xs = foldl fl_add (Fin 0) xs"

definition mean :: "fl list \<Rightarrow> fl" where
  "mean xs = (let ys = dropna xs in if ys = [] then NaN else fl_div (fl_sum ys) (fl_of_nat (length ys)))"

fun fl_sqrt :: "fl \<Rightarrow> fl" where
  "fl_sqrt (Fin a) = (if a < 0 then NaN else Fin (sqrt a))"
| "fl_sqrt PInf = PInf"
| "fl_sqrt _ = NaN"

definition std :: "fl list \<Rightarrow> fl" where
  "std xs =
     (let ys = dropna xs; m = mean ys
      in if length ys < 2 then NaN
         else fl_sqrt (fl_div (fl_sum (map (\<lambda>y. fl_mul (fl_sub y m) (fl_sub y m)) ys))
                        (fl_of_nat (length ys - 1))))"

definition fl_max :: "fl list \<Rightarrow> fl" where
  "fl_max xs =
     (case dropna xs of [] \<Rightarrow> NaN
      | y # ys \<Rightarrow> foldl (\<lambda>a b. if fl_less a b then b else a) y ys)"

definition fl_abs :: "fl \<Rightarrow> fl" where
  "fl_abs x = (if fl_less x (Fin 0) then fl_neg x else x)"

text \<open>\<^verbatim>\<open>round(x, n)\<close> on a float: NaN and the infinities round to themselves.\<close>

fun fl_round :: "nat \<Rightarrow> fl \<Rightarrow> fl" where
  "fl_round n (Fin a) = Fin (round_to n a)"
| "fl_round n x = x"

text \<open>Elementwise arithmetic of two columns of one frame.\<close>

definition col_map2 :: "(fl \<Rightarrow> fl \<Rightarrow> fl) \<Rightarrow> fl list \<Rightarrow> fl list \<Rightarrow> fl list" where
  "col_map2 f xs ys = map (\<lambda>p. f (fst p) (snd p)) (zip xs ys)"

subsection \<open>Anomaly detector (\<^verbatim>\<open>anomaly_detector.py\<close>)\<close>

text \<open>
  A fitted IsolationForest is the two functions the detector calls. What the store
  holds under a name is a scaler or an outlier model; the detector keeps whatever
  object it loaded, and calling a method that the object does not have raises
  AttributeError.
\<close>

record outlier_model =
  om_predict :: "matrix \<Rightarrow> exn + int list"
  om_score_samples :: "matrix \<Rightarrow> exn + fl list"

datatype artifact = ScalerObj scaler | OutlierObj outlier_model | RegressorObj regressor

record detector =
  d_model :: "artifact option"
  d_scaler :: "artifact option"
  d_is_trained :: bool
  baseline_metrics :: "(string \<times> fl) list"

fun scaler_transform :: "artifact option \<Rightarrow> ftable \<Rightarrow> exn + matrix" where
  "scaler_transform (Some (ScalerObj f)) t = f t"
| "scaler_transform _ t = Inl AttributeError"

fun model_predict :: "artifact option \<Rightarrow> matrix \<Rightarrow> exn + int list" where
  "model_predict (Some (OutlierObj m)) X = om_predict m X"
| "model_predict _ X = Inl AttributeError"

fun model_score_samples :: "artifact option \<Rightarrow> matrix \<Rightarrow> exn + fl list" where
  "model_score_samples (Some (OutlierObj m)) X = om_score_samples m X"
| "model_score_samples _ X = Inl AttributeError"

text \<open>
  \<^verbatim>\<open>AnomalyDetector.__init__\<close> and \<^verbatim>\<open>_load_or_create_detector\<close>: the loaded detector is
  trained and has no baseline metrics, which are never persisted.
\<close>

definition new_detector :: "bool \<Rightarrow> detector" where
  "new_detector sklearn_available =
     \<lparr>d_model = None,
      d_scaler = (if sklearn_available then Some (ScalerObj (\<lambda>X. Inl ValueError)) else None),
      d_is_trained = False, baseline_metrics = []\<rparr>"


text \<open>
  An anomaly. The alert message is its template and the values that fill it; the
  deviations are the numbers in front of the percent sign.
\<close>

datatype alert =
    Viral_content int ustr
  | Underperforming_post int
  | High_engagement int
  | Low_engagement_rate
  | Unusual_pattern
  | Rule_viral
  | Rule_underperforming

record metric_values =
  mv_likes :: int
  mv_comments :: int
  mv_views :: int
  mv_responsiveness_index :: fl
  mv_peak_performance :: fl

record anomaly =
  a_post_url :: "string option"
  a_platform :: "string option"
  a_date :: "date_cell option"
  a_type :: string
  a_severity :: string
  a_metric_values :: metric_values
  a_deviation :: "fl \<times> fl"
  a_alert_message :: alert

text \<open>
  \<^verbatim>\<open>row.get(col, default)\<close> on row \<open>i\<close>: the default for a column that the frame does not
  have, the cell otherwise.
\<close>

definition row_get :: "'a list option \<Rightarrow> nat \<Rightarrow> 'a \<Rightarrow> 'a" where
  "row_get c i d = (case c of None \<Rightarrow> d | Some xs \<Rightarrow> xs ! i)"

text \<open>\<^verbatim>\<open>_safe_int\<close>: 0 for NaN, and for an infinity, where \<^verbatim>\<open>int\<close> raises and is caught.\<close>

fun safe_int :: "fl \<Rightarrow> int" where
  "safe_int (Fin a) = py_trunc a"
| "safe_int _ = 0"

definition calc_deviation :: "fl \<Rightarrow> fl \<Rightarrow> fl" where
  "calc_deviation v baseline =
     (if baseline = Fin 0 then Fin 0
      else fl_round 1 (fl_mul (fl_div (fl_sub v baseline) baseline) (Fin 100)))"

definition calculate_severity :: "fl \<Rightarrow> string" where
  "calculate_severity anomaly_score =
     (if fl_less anomaly_score (Fin (- 5 / 10)) then ''high''
      else if fl_less anomaly_score (Fin (- 3 / 10)) then ''medium''
      else ''low'')"

text \<open>\<^verbatim>\<open>self.baseline_metrics[key]\<close>.\<close>

definition baseline_get :: "detector \<Rightarrow> string \<Rightarrow> exn + fl" where
  "baseline_get det key =
     (case map_of (baseline_metrics det) key of
        None \<Rightarrow> Inl (KeyError key) | Some v \<Rightarrow> Inr v)"

definition classify_anomaly_type :: "detector \<Rightarrow> dataframe \<Rightarrow> nat \<Rightarrow> exn + string" where
  "classify_anomaly_type det df i =
     (let likes = row_get (c_likes df) i (Fin 0);
          comments = row_get (c_comments df) i (Fin 0);
          views = row_get (c_views df) i (Fin 0)
      in and_then (baseline_get det ''avg_likes'') (\<lambda>avg_likes.
         and_then (baseline_get det ''avg_comments'') (\<lambda>avg_comments.
           Inr (if fl_greater likes (fl_mul avg_likes (Fin 2)) then ''viral_spike''
                else if fl_less likes (fl_mul avg_likes (Fin (3 / 10))) then ''low_performance''
                else if fl_greater comments (fl_mul avg_comments (Fin 3)) then ''controversial''
                else if fl_greater views (Fin 0)
                        \<and> fl_less (fl_div (fl_add likes comments) views) (Fin (1 / 100))
                     then ''low_engagement''
                else ''unusual_pattern''))))"

text \<open>
  \<^verbatim>\<open>_generate_alert_message\<close>. The dictionary of messages is built in full before the
  lookup, so \<^verbatim>\<open>row.get('caption', '')[:50]\<close> is evaluated for every anomaly: on a
  caption cell that is missing it raises TypeError.
\<close>

definition generate_alert_message :: "detector \<Rightarrow> dataframe \<Rightarrow> nat \<Rightarrow> exn + alert" where
  "generate_alert_message det df i =
     and_then (classify_anomaly_type det df i) (\<lambda>anomaly_type.
       case row_get (c_caption df) i (Some []) of
         None \<Rightarrow> Inl TypeError
       | Some caption \<Rightarrow>
           Inr (if anomaly_type = ''viral_spike''
                  then Viral_content (safe_int (row_get (c_likes df) i (Fin 0))) (take 50 caption)
                else if anomaly_type = ''low_performance''
                  then Underperforming_post (safe_int (row_get (c_likes df) i (Fin 0)))
                else if anomaly_type = ''controversial''
                  then High_engagement (safe_int (row_get (c_comments df) i (Fin 0)))
                else if anomaly_type = ''low_engagement'' then Low_engagement_rate
                else Unusual_pattern))"

definition row_metric_values :: "dataframe \<Rightarrow> nat \<Rightarrow> metric_values" where
  "row_metric_values df i =
     \<lparr>mv_likes = safe_int (row_get (c_likes df) i (Fin 0)),
      mv_comments = safe_int (row_get (c_comments df) i (Fin 0)),
      mv_views = safe_int (row_get (c_views df) i (Fin 0)),
      mv_responsiveness_index = fl_round 2 (row_get (c_responsiveness_index df) i (Fin 0)),
      mv_peak_performance = fl_round 1 (row_get (c_peak_performance df) i (Fin 0))\<rparr>"

text \<open>
  The block "Calculate derived parameters", which stands in \<^verbatim>\<open>detect_anomalies\<close> and
  again in \<^verbatim>\<open>_rule_based_detection\<close>: it writes the columns \<^verbatim>\<open>responsiveness_index\<close> and
  \<^verbatim>\<open>peak_performance\<close> into the frame it was given. A column that it reads and the
  frame does not have raises KeyError; what was written before stays written.
\<close>

definition responsiveness :: "fl \<Rightarrow> fl \<Rightarrow> fl \<Rightarrow> fl" where
  "responsiveness c s f = fl_mul (fl_div (fl_add c s) f) (Fin 10000)"

text \<open>The right-hand sides of the two assignments.\<close>

definition responsiveness_index_of :: "dataframe \<Rightarrow> fl list \<Rightarrow> fl list" where
  "responsiveness_index_of df comments =
     (let followers = (case c_followers df of
                         Some f \<Rightarrow> fillna (Fin 1000) f
                       | None \<Rightarrow> replicate (df_len df) (Fin 1000));
          shares = (case c_shares df of
                      Some s \<Rightarrow> s | None \<Rightarrow> replicate (df_len df) (Fin 0))
      in map (\<lambda>p. responsiveness (fst (fst p)) (snd (fst p)) (snd p))
           (zip (zip comments shares) followers))"

definition peak_performance_of :: "nat \<Rightarrow> fl list \<Rightarrow> fl list \<Rightarrow> fl list" where
  "peak_performance_of n likes comments =
     (let engagement = col_map2 fl_add likes comments;
          max_engagement = fl_max engagement
      in if fl_greater max_engagement (Fin 0)
         then map (\<lambda>e. fl_mul (fl_div e max_engagement) (Fin 100)) engagement
         else replicate n (Fin 0))"

definition write_derived :: "dataframe \<Rightarrow> dataframe \<times> (exn + unit)" where
  "write_derived df =
     (case c_comments df of
        None \<Rightarrow> (df, Inl (KeyError ''comments''))
      | Some comments \<Rightarrow>
          (let df1 = df\<lparr>c_responsiveness_index := Some (responsiveness_index_of df comments)\<rparr>
           in case c_likes df1 of
                None \<Rightarrow> (df1, Inl (KeyError ''likes''))
              | Some likes \<Rightarrow>
                  (df1\<lparr>c_peak_performance :=
                         Some (peak_performance_of (df_len df1) likes comments)\<rparr>,
                   Inr ())))"

text \<open>
  \<^verbatim>\<open>_rule_based_detection\<close>. The columns \<^verbatim>\<open>likes\<close> and \<^verbatim>\<open>comments\<close> are there once the
  derived columns are written. The result is sorted by the absolute likes deviation,
  largest first and stable, and cut to ten.
\<close>

fun join_comma :: "string list \<Rightarrow> string" where
  "join_comma [] = []"
| "join_comma [t] = t"
| "join_comma (t # ts) = t @ '', '' @ join_comma ts"

definition rule_row :: "dataframe \<Rightarrow> fl list \<Rightarrow> fl list \<Rightarrow> nat \<Rightarrow> anomaly option" where
  "rule_row df likes comments i =
     (let avg_likes = mean likes; std_likes = std likes;
          avg_comments = mean comments; std_comments = std comments;
          likes_upper = fl_add avg_likes (fl_mul (Fin 3) std_likes);
          likes_lower = (let l = fl_sub avg_likes (fl_mul (Fin 3) std_likes)
                         in if fl_greater l (Fin 0) then l else Fin 0);
          comments_upper = fl_add avg_comments (fl_mul (Fin 3) std_comments);
          comments_lower = (let l = fl_sub avg_comments (fl_mul (Fin 3) std_comments)
                            in if fl_greater l (Fin 0) then l else Fin 0);
          anomaly_type =
            (if fl_greater (likes ! i) likes_upper then [''viral_spike'']
             else if fl_less (likes ! i) likes_lower then [''low_likes''] else [])
            @ (if fl_greater (comments ! i) comments_upper then [''high_engagement'']
               else if fl_less (comments ! i) comments_lower then [''low_engagement''] else []);
          deviation_likes = calc_deviation (likes ! i) avg_likes;
          deviation_comments = calc_deviation (comments ! i) avg_comments
      in if anomaly_type = [] then None
         else Some
           \<lparr>a_post_url = row_get (c_post_url df) i (Some ''N/A''),
            a_platform = row_get (c_platform df) i (Some ''N/A''),
            a_date = (case c_upload_date df of None \<Rightarrow> None | Some d \<Rightarrow> Some (d ! i)),
            a_type = join_comma anomaly_type,
            a_severity = (if fl_greater (fl_abs deviation_likes) (Fin 200)
                          then ''high'' else ''medium''),
            a_metric_values = row_metric_values df i,
            a_deviation = (deviation_likes, deviation_comments),
            a_alert_message = (if ''viral_spike'' \<in> set anomaly_type
                               then Rule_viral else Rule_underperforming)\<rparr>)"

fun insert_desc :: "anomaly \<Rightarrow> anomaly list \<Rightarrow> anomaly list" where
  "insert_desc x [] = [x]"
| "insert_desc x (y # ys) =
     (if fl_less (fl_abs (fst (a_deviation y))) (fl_abs (fst (a_deviation x)))
      then x # y # ys else y # insert_desc x ys)"

definition sort_by_deviation :: "anomaly list \<Rightarrow> anomaly list" where
  "sort_by_deviation xs = foldl (\<lambda>acc x. insert_desc x acc) [] xs"

definition rule_based_detection :: "dataframe \<Rightarrow> dataframe \<times> (exn + anomaly list)" where
  "rule_based_detection df =
     (case write_derived df of
        (df', Inl e) \<Rightarrow> (df', Inl e)
      | (df', Inr _) \<Rightarrow>
          (df', Inr (take 10 (sort_by_deviation
                       (List.map_filter
                          (rule_row df' (get_or [] (c_likes df')) (get_or [] (c_comments df')))
                          [0 ..< df_len df'])))))"

text \<open>
  \<^verbatim>\<open>detect_anomalies\<close>. The six-column feature frame of the learned path, then one
  anomaly per row that the model flags with \<open>-1\<close>; the entries of the anomaly are
  evaluated in the order of the dictionary display.
\<close>

definition detector_features :: "dataframe \<Rightarrow> exn + ftable" where
  "detector_features df =
     (case c_likes df of None \<Rightarrow> Inl (KeyError ''likes'') | Some likes \<Rightarrow>
      case c_comments df of None \<Rightarrow> Inl (KeyError ''comments'') | Some comments \<Rightarrow>
      case c_views df of None \<Rightarrow> Inl (KeyError ''views'') | Some views \<Rightarrow>
      case c_responsiveness_index df of
        None \<Rightarrow> Inl (KeyError ''responsiveness_index'') | Some ri \<Rightarrow>
      case c_peak_performance df of
        None \<Rightarrow> Inl (KeyError ''peak_performance'') | Some pp \<Rightarrow>
        Inr \<lparr>ft_index = df_len df,
             ft_cols =
               [(''likes'', fillna (Fin 0) likes),
                (''comments'', fillna (Fin 0) comments),
                (''views'', fillna (Fin 0) views),
                (''engagement_rate'',
                   col_map2 fl_div (col_map2 fl_add likes comments)
                     (replace_val (Fin 0) (Fin 1) views)),
                (''responsiveness_index'', fillna (Fin 0) ri),
                (''peak_performance'', fillna (Fin 0) pp)]\<rparr>)"

definition ml_anomaly :: "detector \<Rightarrow> dataframe \<Rightarrow> fl list \<Rightarrow> nat \<Rightarrow> exn + anomaly" where
  "ml_anomaly det df anomaly_scores idx =
     (if idx \<ge> df_len df then Inl IndexError
      else
        and_then (classify_anomaly_type det df idx) (\<lambda>ty.
        and_then (if idx < length anomaly_scores
                  then Inr (calculate_severity (anomaly_scores ! idx)) else Inl IndexError)
          (\<lambda>sev.
        and_then (baseline_get det ''avg_likes'') (\<lambda>avg_likes.
        and_then (baseline_get det ''avg_comments'') (\<lambda>avg_comments.
        and_then (generate_alert_message det df idx) (\<lambda>msg.
          Inr \<lparr>a_post_url = row_get (c_post_url df) idx (Some ''N/A''),
               a_platform = row_get (c_platform df) idx (Some ''N/A''),
               a_date = (case c_upload_date df of None \<Rightarrow> None | Some d \<Rightarrow> Some (d ! idx)),
               a_type = ty,
               a_severity = sev,
               a_metric_values = row_metric_values df idx,
               a_deviation =
                 (calc_deviation (row_get (c_likes df) idx (Fin 0)) avg_likes,
                  calc_deviation (row_get (c_comments df) idx (Fin 0)) avg_comments),
               a_alert_message = msg\<rparr>))))))"

fun collect :: "(nat \<Rightarrow> exn + 'a) \<Rightarrow> nat list \<Rightarrow> exn + 'a list" where
  "collect f [] = Inr []"
| "collect f (i # is) = and_then (f i) (\<lambda>x. and_then (collect f is) (\<lambda>xs. Inr (x # xs)))"

definition detect_anomalies :: "detector \<Rightarrow> dataframe \<Rightarrow> dataframe \<times> (exn + anomaly list)" where
  "detect_anomalies det df =
     (if \<not> d_is_trained det \<and> baseline_metrics det = [] then rule_based_detection df
      else
        case write_derived df of
          (df', Inl e) \<Rightarrow> (df', Inl e)
        | (df', Inr _) \<Rightarrow>
            (case detector_features df' of
               Inl e \<Rightarrow> (df', Inl e)
             | Inr features \<Rightarrow>
                 if d_is_trained det then
                   (df',
                    and_then (scaler_transform (d_scaler det) features) (\<lambda>X_scaled.
                    and_then (model_predict (d_model det) X_scaled) (\<lambda>predictions.
                    and_then (model_score_samples (d_model det) X_scaled) (\<lambda>anomaly_scores.
                      collect (ml_anomaly det df' anomaly_scores)
                        (filter (\<lambda>i. predictions ! i = - 1) [0 ..< length predictions])))))
                 else rule_based_detection df'))"

subsection \<open>Training\<close>

text \<open>
  scikit-learn, as far as \<^verbatim>\<open>train\<close> calls it: whether the import succeeded, and the
  fitting and scoring functions, each of which may raise. \<^verbatim>\<open>train_test_split\<close> returns
  the training and validation parts of the matrix and of the target.
\<close>

record sklearn =
  SKLEARN_AVAILABLE :: bool
  scaler_fit_transform :: "ftable \<Rightarrow> exn + (scaler \<times> matrix)"
  train_test_split :: "matrix \<Rightarrow> fl list \<Rightarrow> matrix \<times> matrix \<times> fl list \<times> fl list"
  gbr_fit :: "matrix \<Rightarrow> fl list \<Rightarrow> exn + regressor"
  gbr_score :: "regressor \<Rightarrow> matrix \<Rightarrow> fl list \<Rightarrow> exn + fl"
  iforest_fit :: "matrix \<Rightarrow> exn + outlier_model"

text \<open>An estimator that was constructed and not fitted: its methods raise.\<close>

definition unfitted_regressor :: regressor where
  "unfitted_regressor = (\<lambda>X. Inl ValueError)"

definition unfitted_iforest :: outlier_model where
  "unfitted_iforest = \<lparr>om_predict = (\<lambda>X. Inl ValueError), om_score_samples = (\<lambda>X. Inl ValueError)\<rparr>"

text \<open>What \<^verbatim>\<open>train\<close> returns: \<^verbatim>\<open>{"error": ...}\<close> or \<^verbatim>\<open>{"status": "success", "version": ..., **metadata}\<close>.\<close>

datatype train_result = Error string | Success string "(string \<times> jvalue) list"

definition PREDICTOR_VERSION :: string where
  "PREDICTOR_VERSION = ''1.1''"

definition ANOMALY_VERSION :: string where
  "ANOMALY_VERSION = ''1.0''"

definition MIN_TRAIN_SAMPLES_PREDICTOR :: nat where
  "MIN_TRAIN_SAMPLES_PREDICTOR = 50"

definition MIN_TRAIN_SAMPLES_DETECTOR :: nat where
  "MIN_TRAIN_SAMPLES_DETECTOR = 30"

text \<open>Boolean indexing \<^verbatim>\<open>s[mask]\<close> of a column and \<^verbatim>\<open>X[mask]\<close> of a table.\<close>

definition mask_col :: "bool list \<Rightarrow> 'a list \<Rightarrow> 'a list" where
  "mask_col msk xs = map snd (filter fst (zip msk xs))"

definition mask_rows :: "bool list \<Rightarrow> ftable \<Rightarrow> ftable" where
  "mask_rows msk t =
     \<lparr>ft_index = length (filter id (take (ft_index t) msk)),
      ft_cols = map (\<lambda>p. (fst p, mask_col msk (snd p))) (ft_cols t)\<rparr>"

text \<open>
  \<^verbatim>\<open>np.sort\<close> (NaN last) and \<^verbatim>\<open>np.quantile\<close> with linear interpolation between the two
  neighbours of position \<open>q * (n - 1)\<close> of the sorted array.
\<close>

fun insert_asc :: "fl \<Rightarrow> fl list \<Rightarrow> fl list" where
  "insert_asc x [] = [x]"
| "insert_asc x (y # ys) = (if isnan y \<or> fl_less x y then x # y # ys else y # insert_asc x ys)"

definition np_sort :: "fl list \<Rightarrow> fl list" where
  "np_sort xs = foldr insert_asc xs []"

definition np_quantile :: "fl list \<Rightarrow> real \<Rightarrow> fl" where
  "np_quantile a q =
     (if a = [] then NaN
      else
        (let pos = q * of_nat (length a - 1);
             lo = nat \<lfloor>pos\<rfloor>;
             hi = min (lo + 1) (length a - 1);
             frac = pos - of_int \<lfloor>pos\<rfloor>
         in if frac = 0 then a ! lo
            else fl_add (a ! lo) (fl_mul (fl_sub (a ! hi) (a ! lo)) (Fin frac))))"

definition quantile_table :: "fl list \<Rightarrow> (string \<times> fl) list" where
  "quantile_table a =
     [(''q10'', np_quantile a (10 / 100)),
      (''q25'', np_quantile a (25 / 100)),
      (''q50'', np_quantile a (50 / 100)),
      (''q75'', np_quantile a (75 / 100)),
      (''q90'', np_quantile a (90 / 100))]"

text \<open>
  \<^verbatim>\<open>EngagementPredictor.train\<close>. The result carries the predictor and the store as the
  call leaves them, also when it returns an error or raises. \<open>now\<close> is the clock's
  \<^verbatim>\<open>datetime.utcnow().isoformat() + "Z"\<close>.
\<close>

definition save_all ::
  "artifact store \<Rightarrow> string \<Rightarrow> (string \<times> artifact) list \<Rightarrow> (string \<times> jvalue) list
     \<Rightarrow> artifact store" where
  "save_all st ver objs meta =
     foldl (\<lambda>s p. fst (save_model s (fst p) ver (snd p) meta)) st objs"

text \<open>
  The scikit-learn part of \<^verbatim>\<open>train\<close>, from the scaling to the four scores: the predictor as
  the calls leave it, and the fitted scaler, the two models and the scores, or the
  exception of the call that raised.
\<close>

definition fit_models ::
  "sklearn \<Rightarrow> predictor \<Rightarrow> ftable \<Rightarrow> fl list \<Rightarrow> fl list \<Rightarrow> fl list
     \<Rightarrow> predictor \<times> (exn + scaler \<times> regressor \<times> regressor \<times> fl \<times> fl \<times> fl \<times> fl)" where
  "fit_models sk p X y_likes y_comments y_views =
     (case scaler_fit_transform sk X of
        Inl e \<Rightarrow> (p, Inl e)
      | Inr (sc, X_scaled) \<Rightarrow>
     (let p = p\<lparr>p_scaler := Some sc\<rparr>;
          (X_train, X_val, y_likes_train, y_likes_val) = train_test_split sk X_scaled y_likes;
          (X_train', X_val', y_comments_train, y_comments_val) =
             train_test_split sk X_scaled y_comments;
          p = p\<lparr>model_likes := Some unfitted_regressor, model_comments := Some unfitted_regressor\<rparr>
      in case gbr_fit sk X_train y_likes_train of
           Inl e \<Rightarrow> (p, Inl e)
         | Inr ml \<Rightarrow>
     (let p = p\<lparr>model_likes := Some ml\<rparr>
      in case gbr_fit sk X_train y_comments_train of
           Inl e \<Rightarrow> (p, Inl e)
         | Inr mc \<Rightarrow>
     (let p = p\<lparr>model_comments := Some mc\<rparr>
      in case (if fl_greater (fl_sum y_views) (Fin 0)
               then (case gbr_fit sk (mask_col (map (\<lambda>v. fl_greater v (Fin 0)) y_views) X_scaled)
                            (mask_col (map (\<lambda>v. fl_greater v (Fin 0)) y_views) y_views) of
                       Inl e \<Rightarrow> Inl (p\<lparr>model_views := Some unfitted_regressor\<rparr>, e)
                     | Inr mv \<Rightarrow> Inr (p\<lparr>model_views := Some mv\<rparr>))
               else Inr p) of
           Inl (p, e) \<Rightarrow> (p, Inl e)
         | Inr p \<Rightarrow>
     (let p = p\<lparr>p_is_trained := True\<rparr>
      in case and_then (gbr_score sk ml X_train y_likes_train) (\<lambda>s1.
              and_then (gbr_score sk ml X_val y_likes_val) (\<lambda>s2.
              and_then (gbr_score sk mc X_train y_comments_train) (\<lambda>s3.
              and_then (gbr_score sk mc X_val y_comments_val) (\<lambda>s4. Inr (s1, s2, s3, s4))))) of
           Inl e \<Rightarrow> (p, Inl e)
         | Inr (train_score_likes, val_score_likes, train_score_comments, val_score_comments) \<Rightarrow>
             (p, Inr (sc, ml, mc, train_score_likes, val_score_likes, train_score_comments,
                      val_score_comments)))))))"

text \<open>
  The rest of \<^verbatim>\<open>train\<close>: the engagement distribution and its quantile table, the
  metadata, and the writes to the store. Nothing here raises.
\<close>

definition training_metadata ::
  "string \<Rightarrow> predictor \<Rightarrow> ftable \<Rightarrow> fl \<times> fl \<times> fl \<times> fl \<Rightarrow> (string \<times> fl) list
     \<Rightarrow> (string \<times> jvalue) list" where
  "training_metadata now p X scores quantiles =
     (case scores of
        (train_score_likes, val_score_likes, train_score_comments, val_score_comments) \<Rightarrow>
          [(''trained_on'', JStr now),
           (''samples_trained'', JInt (int (ft_index X))),
           (''features_used'', JInt (int (length (feature_names p)))),
           (''r2_score_likes'', JNum (fl_round 3 train_score_likes)),
           (''r2_score_comments'', JNum (fl_round 3 train_score_comments)),
           (''val_r2_likes'', JNum (fl_round 3 val_score_likes)),
           (''val_r2_comments'', JNum (fl_round 3 val_score_comments)),
           (''quantiles'', JDict quantiles)])"

definition finish_training ::
  "string \<Rightarrow> artifact store \<Rightarrow> predictor \<Rightarrow> ftable \<Rightarrow> fl list \<Rightarrow> fl list
     \<Rightarrow> scaler \<times> regressor \<times> regressor \<times> fl \<times> fl \<times> fl \<times> fl
     \<Rightarrow> (predictor \<times> artifact store) \<times> train_result" where
  "finish_training now st p X y_likes y_comments fitted =
     (case fitted of (sc, ml, mc, scores) \<Rightarrow>
     (let engagement_sorted = np_sort (col_map2 fl_add y_likes y_comments);
          quantiles = quantile_table engagement_sorted;
          p = p\<lparr>engagement_dist := Some (engagement_sorted, quantiles)\<rparr>;
          metadata = training_metadata now p X scores quantiles;
          st = save_all st PREDICTOR_VERSION
                 ([(''predictor_scaler'', ScalerObj sc),
                   (''predictor_likes'', RegressorObj ml),
                   (''predictor_comments'', RegressorObj mc)]
                  @ (case model_views p of
                       Some mv \<Rightarrow> [(''predictor_views'', RegressorObj mv)] | None \<Rightarrow> []))
                 metadata;
          st = save_feature_names st (feature_names p)
      in ((p, st), Success PREDICTOR_VERSION metadata)))"

definition predictor_fit ::
  "sklearn \<Rightarrow> string \<Rightarrow> artifact store \<Rightarrow> predictor \<Rightarrow> ftable \<Rightarrow> fl list \<Rightarrow> fl list \<Rightarrow> fl list
     \<Rightarrow> (predictor \<times> artifact store) \<times> (exn + train_result)" where
  "predictor_fit sk now st p X y_likes y_comments y_views =
     (case fit_models sk p X y_likes y_comments y_views of
        (p, Inl e) \<Rightarrow> ((p, st), Inl e)
      | (p, Inr fitted) \<Rightarrow>
          (case finish_training now st p X y_likes y_comments fitted of
             (after, result) \<Rightarrow> (after, Inr result)))"

definition train_predictor ::
  "sklearn \<Rightarrow> string \<Rightarrow> artifact store \<Rightarrow> predictor \<Rightarrow> dataframe
     \<Rightarrow> (predictor \<times> artifact store) \<times> (exn + train_result)" where
  "train_predictor sk now st p df =
     (if \<not> SKLEARN_AVAILABLE sk then ((p, st), Inr (Error ''scikit-learn not installed''))
      else if df_len df < MIN_TRAIN_SAMPLES_PREDICTOR
        then ((p, st), Inr (Error ''Not enough data to train (need at least 50 posts)''))
      else
        (let X = sanitize (build_features df);
             p = p\<lparr>feature_names := ft_names X\<rparr>
         in case c_likes df of None \<Rightarrow> ((p, st), Inl (KeyError ''likes'')) | Some likes \<Rightarrow>
            case c_comments df of None \<Rightarrow> ((p, st), Inl (KeyError ''comments'')) | Some comments \<Rightarrow>
            case c_views df of None \<Rightarrow> ((p, st), Inl (KeyError ''views'')) | Some views \<Rightarrow>
              (let y_likes = fillna (Fin 0) likes;
                   y_comments = fillna (Fin 0) comments;
                   y_views = fillna (Fin 0) views;
                   valid_idx = map (\<lambda>lc. fl_greater (fst lc) (Fin 0) \<and> fl_greater (snd lc) (Fin 0))
                                 (zip y_likes y_comments);
                   X = mask_rows valid_idx X;
                   y_likes = mask_col valid_idx y_likes;
                   y_comments = mask_col valid_idx y_comments;
                   y_views = mask_col valid_idx y_views
               in if ft_index X < 30
                  then ((p, st), Inr (Error ''Not enough valid data after filtering''))
                  else predictor_fit sk now st p X y_likes y_comments y_views)))"

text \<open>\<^verbatim>\<open>AnomalyDetector.calculate_baseline\<close> and \<^verbatim>\<open>AnomalyDetector.train\<close>.\<close>

definition nan_to_zero :: "fl \<Rightarrow> fl" where
  "nan_to_zero v = (if isnan v then Fin 0 else v)"

definition calculate_baseline :: "detector \<Rightarrow> dataframe \<Rightarrow> detector \<times> (exn + (string \<times> fl) list)" where
  "calculate_baseline det df =
     (case c_likes df of None \<Rightarrow> (det, Inl (KeyError ''likes'')) | Some likes \<Rightarrow>
      case c_comments df of None \<Rightarrow> (det, Inl (KeyError ''comments'')) | Some comments \<Rightarrow>
        (let metrics =
               [(''avg_likes'', mean likes),
                (''std_likes'', std likes),
                (''avg_comments'', mean comments),
                (''std_comments'', std comments),
                (''avg_views'', case c_views df of Some views \<Rightarrow> mean views | None \<Rightarrow> Fin 0),
                (''std_views'', case c_views df of Some views \<Rightarrow> std views | None \<Rightarrow> Fin 0),
                (''avg_engagement_rate'',
                   case c_views df of
                     Some views \<Rightarrow>
                       mean (col_map2 fl_div (col_map2 fl_add likes comments)
                               (replace_val (Fin 0) (Fin 1) views))
                   | None \<Rightarrow> Fin 0)];
             metrics = map (\<lambda>kv. (fst kv, nan_to_zero (snd kv))) metrics
         in (det\<lparr>baseline_metrics := metrics\<rparr>, Inr metrics)))"

definition train_features :: "dataframe \<Rightarrow> exn + ftable" where
  "train_features df =
     (case c_likes df of None \<Rightarrow> Inl (KeyError ''likes'') | Some likes \<Rightarrow>
      case c_comments df of None \<Rightarrow> Inl (KeyError ''comments'') | Some comments \<Rightarrow>
      case c_views df of None \<Rightarrow> Inl (KeyError ''views'') | Some views \<Rightarrow>
        Inr \<lparr>ft_index = df_len df,
             ft_cols =
               [(''likes'', fillna (Fin 0) likes),
                (''comments'', fillna (Fin 0) comments),
                (''views'', fillna (Fin 0) views),
                (''engagement_rate'',
                   col_map2 fl_div (col_map2 fl_add likes comments)
                     (replace_val (Fin 0) (Fin 1) views))]\<rparr>)"

definition train_detector ::
  "sklearn \<Rightarrow> string \<Rightarrow> artifact store \<Rightarrow> detector \<Rightarrow> dataframe
     \<Rightarrow> (detector \<times> artifact store) \<times> (exn + train_result)" where
  "train_detector sk now st det df =
     (if \<not> SKLEARN_AVAILABLE sk then ((det, st), Inr (Error ''scikit-learn not installed''))
      else if df_len df < MIN_TRAIN_SAMPLES_DETECTOR
        then ((det, st), Inr (Error ''Not enough data to train (need at least 30 posts)''))
      else
        case calculate_baseline det df of
          (det, Inl e) \<Rightarrow> ((det, st), Inl e)
        | (det, Inr _) \<Rightarrow>
        case train_features df of
          Inl e \<Rightarrow> ((det, st), Inl e)
        | Inr features \<Rightarrow>
        case scaler_fit_transform sk features of
          Inl e \<Rightarrow> ((det, st), Inl e)
        | Inr (sc, X_scaled) \<Rightarrow>
        (let det = det\<lparr>d_scaler := Some (ScalerObj sc), d_model := Some (OutlierObj unfitted_iforest)\<rparr>
         in case iforest_fit sk X_scaled of
              Inl e \<Rightarrow> ((det, st), Inl e)
            | Inr m \<Rightarrow>
        (let det = det\<lparr>d_model := Some (OutlierObj m), d_is_trained := True\<rparr>
         in case and_then (and_then (baseline_get det ''avg_likes'') py_int) (\<lambda>a.
                 and_then (and_then (baseline_get det ''avg_comments'') py_int) (\<lambda>b. Inr (a, b))) of
              Inl e \<Rightarrow> ((det, st), Inl e)
            | Inr (avg_l, avg_c) \<Rightarrow>
        (let meta =
               [(''trained_on'', JStr now),
                (''samples_trained'', JInt (int (df_len df))),
                (''baseline_avg_likes'', JInt avg_l),
                (''baseline_avg_comments'', JInt avg_c)];
             st = save_all st ANOMALY_VERSION
                    [(''anomaly_scaler'', ScalerObj sc), (''anomaly_model'', OutlierObj m)] meta
         in ((det, st), Inr (Success ANOMALY_VERSION meta))))))"

subsection \<open>Reading the derived columns\<close>




text \<open>
  Example objects: a frame of numeric columns only, a store as a successful training
  of the detector leaves it, whose scaler and outlier model answer every input and
  flag the first row, and the detector that a new process loads from that store.
\<close>

definition numeric_frame :: "fl list \<Rightarrow> fl list \<Rightarrow> fl list \<Rightarrow> fl list option \<Rightarrow> dataframe" where
  "numeric_frame likes comments views followers =
     \<lparr>df_len = length likes, df_other = 0, c_likes = Some likes, c_comments = Some comments,
      c_views = Some views, c_followers = followers, c_shares = None,
      c_responsiveness_index = None, c_peak_performance = None, c_caption = None,
      c_platform = None, c_upload_date = None, c_post_url = None\<rparr>"

definition stored_scaler :: scaler where
  "stored_scaler = (\<lambda>t. Inr [[Fin 0]])"

definition stored_model :: outlier_model where
  "stored_model = \<lparr>om_predict = (\<lambda>X. Inr [- 1]), om_score_samples = (\<lambda>X. Inr [Fin (- 6 / 10)])\<rparr>"



subsection \<open>Reading the training batch\<close>

text \<open>
  The rows that the specification calls valid: the pairs of likes and comments,
  missing values read as 0, in which both are positive; and their engagement,
  likes plus comments.
\<close>

definition valid_rows :: "dataframe \<Rightarrow> (fl \<times> fl) list" where
  "valid_rows df =
     filter (\<lambda>lc. fl_greater (fst lc) (Fin 0) \<and> fl_greater (snd lc) (Fin 0))
       (zip (fillna (Fin 0) (get_or [] (c_likes df))) (fillna (Fin 0) (get_or [] (c_comments df))))"


definition valid_mask :: "dataframe \<Rightarrow> bool list" where
  "valid_mask df =
     map (\<lambda>lc. fl_greater (fst lc) (Fin 0) \<and> fl_greater (snd lc) (Fin 0))
       (zip (fillna (Fin 0) (get_or [] (c_likes df))) (fillna (Fin 0) (get_or [] (c_comments df))))"

text \<open>
  The conditions under which \<^verbatim>\<open>train\<close> is expected to succeed: scikit-learn is there and
  its fitting and scoring calls return; the batch has the three target columns; no
  row is lost to the target filter; no target cell is infinite.
\<close>

definition sklearn_works :: "sklearn \<Rightarrow> bool" where
  "sklearn_works sk =
     (SKLEARN_AVAILABLE sk
      \<and> (\<forall>t. \<exists>r. scaler_fit_transform sk t = Inr r)
      \<and> (\<forall>X y. \<exists>m. gbr_fit sk X y = Inr m)
      \<and> (\<forall>m X y. \<exists>s. gbr_score sk m X y = Inr s)
      \<and> (\<forall>X. \<exists>m. iforest_fit sk X = Inr m))"

definition has_targets :: "dataframe \<Rightarrow> bool" where
  "has_targets df = (c_likes df \<noteq> None \<and> c_comments df \<noteq> None \<and> c_views df \<noteq> None)"

definition no_filter_loss :: "dataframe \<Rightarrow> bool" where
  "no_filter_loss df =
     (list_all (\<lambda>x. fl_greater x (Fin 0)) (get_or [] (c_likes df))
      \<and> list_all (\<lambda>x. fl_greater x (Fin 0)) (get_or [] (c_comments df)))"

definition finite_targets :: "dataframe \<Rightarrow> bool" where
  "finite_targets df =
     (list_all (\<lambda>x. \<not> is_inf x) (get_or [] (c_likes df))
      \<and> list_all (\<lambda>x. \<not> is_inf x) (get_or [] (c_comments df)))"

text \<open>
  Example objects: a scikit-learn whose calls all return, an empty store, and a batch
  of \<open>n\<close> posts with 10 likes, 5 comments and 100 views each.
\<close>

definition stub_sklearn :: sklearn where
  "stub_sklearn =
     \<lparr>SKLEARN_AVAILABLE = True,
      scaler_fit_transform = (\<lambda>t. Inr (stored_scaler, [])),
      train_test_split = (\<lambda>X y. (X, X, y, y)),
      gbr_fit = (\<lambda>X y. Inr (\<lambda>Z. Inr (map (\<lambda>r. Fin 0) Z))),
      gbr_score = (\<lambda>m X y. Inr (Fin 1)),
      iforest_fit = (\<lambda>X. Inr stored_model)\<rparr>"

definition empty_store :: "artifact store" where
  "empty_store =
     \<lparr>joblib_available = True, writable = True, registry_doc = NoFile,
      payloads = Map.empty, features_doc = None\<rparr>"

definition uniform_batch :: "nat \<Rightarrow> dataframe" where
  "uniform_batch n =
     numeric_frame (replicate n (Fin 10)) (replicate n (Fin 5)) (replicate n (Fin 100)) None"


definition example_now :: string where
  "example_now = ''2024-01-06T13:00:00Z''"

section \<open>Properties\<close>

subsection \<open>Model store\<close>

text \<open>
  C9. If the registry references an artifact whose payload file is missing from the
  store, or is there and cannot be deserialised, \<open>load_model\<close> returns \<open>None\<close> and does
  not raise.
\<close>

theorem load_model_missing_payload:
  assumes "registry_doc st = Doc reg" and "reg name = Some e"
    and "payloads st (model_filepath name (version e)) = None
         \<or> payloads st (model_filepath name (version e)) = Some Corrupt"
  shows "load_model st name = Inr None"
  using assms by (auto simp: load_model_def load_registry_def Let_def)

theorem load_model_missing_payload_witness:
  "load_model
     \<lparr>joblib_available = True, writable = True,
      registry_doc = Doc [''anomaly_model'' \<mapsto> \<lparr>version = Some ''1.0'', metadata = []\<rparr>],
      payloads = (Map.empty :: string \<rightharpoonup> nat payload), features_doc = None\<rparr>
     ''anomaly_model'' = Inr None"
  using load_model_missing_payload
    [of "\<lparr>joblib_available = True, writable = True,
          registry_doc = Doc [''anomaly_model'' \<mapsto> \<lparr>version = Some ''1.0'', metadata = []\<rparr>],
          payloads = (Map.empty :: string \<rightharpoonup> nat payload), features_doc = None\<rparr>"
        "[''anomaly_model'' \<mapsto> \<lparr>version = Some ''1.0'', metadata = []\<rparr>]"
        "''anomaly_model''" "\<lparr>version = Some ''1.0'', metadata = []\<rparr>"]
  by simp

subsection \<open>Schema alignment\<close>

lemma set_scalar_new:
  "col \<notin> set (ft_names t) \<Longrightarrow>
   set_scalar t col v = t\<lparr>ft_cols := ft_cols t @ [(col, replicate (ft_index t) v)]\<rparr>"
  by (simp add: set_scalar_def put_column_def)

lemma fill_missing_index: "ft_index (fill_missing t refs) = ft_index t"
  by (induction refs arbitrary: t) (auto simp: set_scalar_new)

lemma set_scalar_new_names:
  "r \<notin> set (ft_names t) \<Longrightarrow> set (ft_names (set_scalar t r v)) = insert r (set (ft_names t))"
  by (auto simp: set_scalar_new ft_names_def)

lemma set_scalar_new_index: "ft_index (set_scalar t r v) = ft_index t"
  by (simp add: set_scalar_def put_column_def)

lemma fill_missing_names_mono: "set (ft_names t) \<subseteq> set (ft_names (fill_missing t refs))"
proof (induction refs arbitrary: t)
  case Nil
  then show ?case by simp
next
  case (Cons c cs)
  have "set (ft_names t)
          \<subseteq> set (ft_names (if c \<notin> set (ft_names t) then set_scalar t c (Fin 0) else t))"
    by (auto simp: set_scalar_new_names)
  with Cons.IH show ?case by (metis fill_missing.simps(2) subset_trans)
qed

lemma fill_missing_covers: "set refs \<subseteq> set (ft_names (fill_missing t refs))"
proof (induction refs arbitrary: t)
  case Nil
  then show ?case by simp
next
  case (Cons c cs)
  let ?t = "if c \<notin> set (ft_names t) then set_scalar t c (Fin 0) else t"
  have "c \<in> set (ft_names ?t)" by (auto simp: set_scalar_new_names)
  then have "c \<in> set (ft_names (fill_missing ?t cs))" using fill_missing_names_mono by blast
  with Cons.IH [of ?t] show ?case by simp
qed

lemma fill_missing_distinct:
  "distinct (ft_names t) \<Longrightarrow> distinct (ft_names (fill_missing t refs))"
proof (induction refs arbitrary: t)
  case Nil
  then show ?case by simp
next
  case (Cons c cs)
  have "distinct (ft_names (if c \<notin> set (ft_names t) then set_scalar t c (Fin 0) else t))"
    using Cons.prems by (auto simp: set_scalar_new ft_names_def)
  then show ?case using Cons.IH by simp
qed

lemma lookup_absent: "c \<notin> set (ft_names t) \<Longrightarrow> map_of (ft_cols t) c = None"
  by (simp add: ft_names_def map_of_eq_None_iff)

lemma lookup_present: "c \<in> set (ft_names t) \<Longrightarrow> \<exists>v. map_of (ft_cols t) c = Some v"
  using map_of_eq_None_iff [of "ft_cols t" c]
  by (cases "map_of (ft_cols t) c") (auto simp: ft_names_def)

lemma set_scalar_new_lookup:
  assumes "r \<notin> set (ft_names t)" and "c \<notin> set (ft_names t)"
  shows "map_of (ft_cols (set_scalar t r v)) c =
           (if c = r then Some (replicate (ft_index t) v) else None)"
  using lookup_absent [OF assms(2)] by (simp add: set_scalar_new [OF assms(1)] map_add_def)

lemma set_scalar_new_keeps:
  assumes "r \<notin> set (ft_names t)" and "c \<in> set (ft_names t)"
  shows "map_of (ft_cols (set_scalar t r v)) c = map_of (ft_cols t) c"
proof -
  from lookup_present [OF assms(2)] obtain w where "map_of (ft_cols t) c = Some w" ..
  then show ?thesis by (simp add: set_scalar_new [OF assms(1)] map_add_def)
qed

lemma fill_missing_lookup:
  "map_of (ft_cols (fill_missing t refs)) c =
     (if c \<in> set (ft_names t) then map_of (ft_cols t) c
      else if c \<in> set refs then Some (replicate (ft_index t) (Fin 0)) else None)"
proof (induction refs arbitrary: t)
  case Nil
  then show ?case by (simp add: lookup_absent)
next
  case (Cons r rs)
  show ?case
  proof (cases "r \<in> set (ft_names t)")
    case True
    then show ?thesis using Cons.IH [of t] by auto
  next
    case False
    then have step: "fill_missing t (r # rs) = fill_missing (set_scalar t r (Fin 0)) rs"
      by simp
    show ?thesis
    proof (cases "c \<in> set (ft_names t)")
      case True
      with False have "c \<noteq> r" by auto
      with True False show ?thesis
        unfolding step Cons.IH [of "set_scalar t r (Fin 0)"]
        by (simp add: set_scalar_new_names set_scalar_new_keeps)
    next
      case notin: False
      with False show ?thesis
        unfolding step Cons.IH [of "set_scalar t r (Fin 0)"]
        by (simp add: set_scalar_new_names set_scalar_new_lookup set_scalar_new_index)
    qed
  qed
qed

lemma filter_fst_distinct:
  "distinct (map fst ps) \<Longrightarrow> map_of ps c = Some v \<Longrightarrow> filter (\<lambda>p. fst p = c) ps = [(c, v)]"
proof (induction ps)
  case Nil
  then show ?case by simp
next
  case (Cons p ps)
  obtain k w where p: "p = (k, w)" by (cases p)
  show ?case
  proof (cases "k = c")
    case True
    with Cons.prems p have "filter (\<lambda>p. fst p = c) ps = []"
      by (auto simp: filter_empty_conv)
    with True p Cons.prems show ?thesis by simp
  next
    case False
    with Cons p show ?thesis by simp
  qed
qed

lemma select_columns_ok:
  assumes "set refs \<subseteq> set (ft_names t)"
  shows "select_columns t refs =
           Inr (t\<lparr>ft_cols := concat (map (\<lambda>c. filter (\<lambda>p. fst p = c) (ft_cols t)) refs)\<rparr>)"
proof -
  have "filter (\<lambda>c. c \<notin> set (ft_names t)) refs = []"
    using assms by (auto simp: filter_empty_conv)
  then show ?thesis by (simp add: select_columns_def)
qed

lemma select_distinct_cols:
  assumes "distinct (map fst ps)" and "set refs \<subseteq> fst ` set ps"
  shows "concat (map (\<lambda>c. filter (\<lambda>p. fst p = c) ps) refs)
           = map (\<lambda>c. (c, the (map_of ps c))) refs"
  using assms(2)
proof (induction refs)
  case Nil
  then show ?case by simp
next
  case (Cons r rs)
  then obtain v where "map_of ps r = Some v"
    by (metis list.set_intros(1) subsetD weak_map_of_SomeI map_of_eq_None_iff not_Some_eq)
  with filter_fst_distinct [OF assms(1) this] Cons show ?case by simp
qed

text \<open>Whatever the table and the reference list, the selection finds every column.\<close>

lemma align_never_missing: "\<exists>t'. snd (align_feature_columns t refs) = Inr t'"
  by (simp add: align_feature_columns_def Let_def select_columns_ok [OF fill_missing_covers])

text \<open>
  C2. For a feature table (its column names are distinct) and any reference list,
  \<open>align_feature_columns\<close> raises no KeyError and returns a table on the same index
  whose columns are the reference columns in the reference order; a reference column
  that the input has keeps its cells and one that it lacks is filled with 0. Input
  columns outside the reference list are therefore not in the result.
\<close>

theorem align_feature_columns_exact:
  assumes "distinct (ft_names t)"
  shows "\<exists>t'. snd (align_feature_columns t refs) = Inr t'
           \<and> ft_names t' = refs \<and> ft_index t' = ft_index t
           \<and> (\<forall>c \<in> set refs. map_of (ft_cols t') c =
                 Some (case map_of (ft_cols t) c of
                         None \<Rightarrow> replicate (ft_index t) (Fin 0) | Some v \<Rightarrow> v))"
proof -
  let ?u = "fill_missing t refs"
  let ?sel = "map (\<lambda>c. (c, the (map_of (ft_cols ?u) c))) refs"
  have cov: "set refs \<subseteq> set (ft_names ?u)" by (rule fill_missing_covers)
  have dist: "distinct (map fst (ft_cols ?u))"
    using fill_missing_distinct [OF assms] by (simp add: ft_names_def)
  have sel: "concat (map (\<lambda>c. filter (\<lambda>p. fst p = c) (ft_cols ?u)) refs) = ?sel"
    using select_distinct_cols [OF dist] cov by (simp add: ft_names_def)
  have res: "snd (align_feature_columns t refs) = Inr (?u\<lparr>ft_cols := ?sel\<rparr>)"
    by (simp add: align_feature_columns_def Let_def select_columns_ok [OF cov] sel)
  have names: "ft_names (?u\<lparr>ft_cols := ?sel\<rparr>) = refs"
    by (simp add: ft_names_def comp_def)
  have cells: "map_of ?sel c =
                 Some (case map_of (ft_cols t) c of
                         None \<Rightarrow> replicate (ft_index t) (Fin 0) | Some v \<Rightarrow> v)"
    if "c \<in> set refs" for c
  proof -
    have "map_of ?sel c = Some (the (map_of (ft_cols ?u) c))"
      using that by (simp add: map_of_map_restrict)
    then show ?thesis
      using that lookup_absent [of c t] lookup_present [of c t]
      by (cases "c \<in> set (ft_names t)") (auto simp: fill_missing_lookup)
  qed
  show ?thesis
    using res names cells by (simp add: fill_missing_index)
qed

subsection \<open>Feature builder\<close>

lemma column_put_other: "k \<noteq> c \<Longrightarrow> column (put_column t c xs) k = column t k"
proof -
  assume ne: "k \<noteq> c"
  have "map_of (map (\<lambda>p. if fst p = c then (c, xs) else p) ps) k = map_of ps k" for ps
    using ne by (induction ps) auto
  moreover have "map_of (ps @ [(c, xs)]) k = map_of ps k" for ps
    using ne by (induction ps) auto
  ultimately show ?thesis by (simp add: column_def put_column_def)
qed

lemma column_put_same: "column (put_column t c xs) c = Some xs"
proof -
  have "c \<in> fst ` set ps \<Longrightarrow> map_of (map (\<lambda>p. if fst p = c then (c, xs) else p) ps) c = Some xs" for ps
    by (induction ps) auto
  moreover have "c \<notin> fst ` set ps \<Longrightarrow> map_of (ps @ [(c, xs)]) c = Some xs" for ps
    by (induction ps) auto
  ultimately show ?thesis by (simp add: column_def put_column_def ft_names_def)
qed

lemma index_put: "ft_index (put_column t c xs) = ft_index t"
  by (simp add: put_column_def)

lemma index_set_series:
  "ft_index (set_series t c xs) = (if ft_index t = 0 \<and> xs \<noteq> [] then length xs else ft_index t)"
  by (simp add: set_series_def Let_def index_put)

lemma map_of_refill:
  "map_of (map (\<lambda>p. (fst p, replicate n NaN)) ps) k
     = map_option (\<lambda>_. replicate n NaN) (map_of ps k)"
  by (induction ps) auto

lemma column_refill:
  "column \<lparr>ft_index = n, ft_cols = map (\<lambda>p. (fst p, replicate m NaN)) (ft_cols t)\<rparr> k
     = map_option (\<lambda>_. replicate m NaN) (column t k)"
  by (simp add: column_def map_of_refill)

lemma column_set_series_other:
  assumes "k \<noteq> c"
  shows "column (set_series t c xs) k =
           (if ft_index t = 0 \<and> xs \<noteq> []
            then map_option (\<lambda>_. replicate (length xs) NaN) (column t k)
            else column t k)"
  using assms by (simp add: set_series_def Let_def column_put_other column_refill)

lemma column_set_series_same:
  "column (set_series t c xs) c =
     Some (if ft_index t = 0 \<and> xs \<noteq> [] then xs
           else take (ft_index t) (xs @ replicate (ft_index t) NaN))"
  by (simp add: set_series_def Let_def column_put_same)

lemma column_set_scalar_other: "k \<noteq> c \<Longrightarrow> column (set_scalar t c v) k = column t k"
  by (simp add: set_scalar_def column_put_other)

lemma column_set_scalar_same: "column (set_scalar t c v) c = Some (replicate (ft_index t) v)"
  by (simp add: set_scalar_def column_put_same)

lemma index_set_scalar: "ft_index (set_scalar t c v) = ft_index t"
  by (simp add: set_scalar_def index_put)

lemma column_concat:
  "column (concat_columns a b) k = (case column a k of Some v \<Rightarrow> Some v | None \<Rightarrow> column b k)"
  by (simp add: column_def concat_columns_def map_add_def split: option.splits)

lemma index_concat: "ft_index (concat_columns a b) = ft_index a"
  by (simp add: concat_columns_def)

lemma column_sanitize: "column (sanitize t) k = map_option (map sanitize_cell) (column t k)"
proof -
  have "map_of (map (\<lambda>p. (fst p, map sanitize_cell (snd p))) ps) k
          = map_option (map sanitize_cell) (map_of ps k)" for ps
    by (induction ps) auto
  then show ?thesis by (simp add: column_def sanitize_def)
qed

lemma time_features_index_Some:
  assumes "col \<noteq> []"
  shows "ft_index (time_features \<lparr>ft_index = 0, ft_cols = []\<rparr> (Some col)) = length col"
  using assms by (simp add: time_features_def Let_def index_set_series)

lemma time_features_column_Some:
  assumes "col \<noteq> []" and "k \<in> set time_names"
  shows "column (time_features \<lparr>ft_index = 0, ft_cols = []\<rparr> (Some col)) k
           = Some (map (\<lambda>c. raw_time_cell k (to_datetime c)) col)"
  using assms
  by (auto simp: time_names_def time_features_def Let_def column_set_series_other
      column_set_series_same index_set_series raw_time_cell_def comp_def)

lemma time_features_index_None:
  "ft_index (time_features \<lparr>ft_index = 0, ft_cols = []\<rparr> None) = 0"
  by (simp add: time_features_def index_set_scalar)

lemma time_features_column_None:
  assumes "k \<in> set time_names"
  shows "column (time_features \<lparr>ft_index = 0, ft_cols = []\<rparr> None) k = Some []"
  using assms
  by (auto simp: time_names_def time_features_def column_set_scalar_other
      column_set_scalar_same index_set_scalar)

lemma caption_features_index:
  "ft_index (caption_features t caps)
     = (if ft_index t = 0 \<and> caps \<noteq> [] then length caps else ft_index t)"
  by (simp add: caption_features_def Let_def index_set_series)

lemma caption_features_time_column:
  assumes "k \<in> set time_names"
  shows "column (caption_features t caps) k =
           (if ft_index t = 0 \<and> caps \<noteq> []
            then map_option (\<lambda>_. replicate (length caps) NaN) (column t k)
            else column t k)"
proof -
  have ne: "k \<noteq> ''caption_length''" "k \<noteq> ''word_count''" "k \<noteq> ''hashtag_count''"
    "k \<noteq> ''mention_count''" "k \<noteq> ''emoji_count''" "k \<noteq> ''has_question''"
    "k \<noteq> ''has_exclamation''" "k \<noteq> ''has_url''"
    using assms by (auto simp: time_names_def)
  show ?thesis
    by (simp add: caption_features_def Let_def column_set_series_other [OF ne(1)]
        column_set_series_other [OF ne(2)] column_set_series_other [OF ne(3)]
        column_set_series_other [OF ne(4)] column_set_series_other [OF ne(5)]
        column_set_series_other [OF ne(6)] column_set_series_other [OF ne(7)]
        column_set_series_other [OF ne(8)] index_set_series)
qed

lemma get_filled_length: "col_ok n c \<Longrightarrow> length (get_filled n d c) = n"
  by (auto simp: get_filled_def col_ok_def split: option.splits)

lemma build_features_time_column:
  assumes ne: "\<not> df_empty df" and wf: "wf_frame df" and k: "k \<in> set time_names"
  shows "column (build_features df) k =
           Some (case c_upload_date df of
                   None \<Rightarrow> replicate (df_len df) NaN
                 | Some col \<Rightarrow> map (\<lambda>c. raw_time_cell k (to_datetime c)) col)"
proof -
  let ?e = "\<lparr>ft_index = 0, ft_cols = []\<rparr>"
  let ?caps = "get_filled (df_len df) [] (c_caption df)"
  have n: "df_len df > 0" using ne by (simp add: df_empty_def)
  have lc: "length ?caps = df_len df"
    using wf by (simp add: wf_frame_def get_filled_length)
  then have cne: "?caps \<noteq> []" using n by auto
  have kavg: "k \<noteq> ''avg_engagement_rate''" using k by (auto simp: time_names_def)
  let ?t1 = "time_features ?e (c_upload_date df)"
  have c1: "column (caption_features ?t1 ?caps) k =
              Some (case c_upload_date df of
                      None \<Rightarrow> replicate (df_len df) NaN
                    | Some col \<Rightarrow> map (\<lambda>c. raw_time_cell k (to_datetime c)) col)"
  proof (cases "c_upload_date df")
    case None
    then show ?thesis
      using cne lc
      by (simp add: caption_features_time_column [OF k] time_features_index_None
          time_features_column_None [OF k])
  next
    case (Some col)
    with wf have "length col = df_len df" by (simp add: wf_frame_def col_ok_def)
    with n have colne: "col \<noteq> []" by auto
    show ?thesis
      using Some colne
      by (simp add: caption_features_time_column [OF k] time_features_index_Some
          time_features_column_Some [OF colne k])
  qed
  show ?thesis
    using ne
    by (simp add: build_features_def Let_def column_set_scalar_other [OF kavg] column_concat c1)
qed

lemma one_post_ok: "\<not> df_empty (one_post cap plat d) \<and> wf_frame (one_post cap plat d)"
  by (simp add: one_post_def df_empty_def df_ncols_def present_def wf_frame_def col_ok_def)

text \<open>
  C6 (as amended). In the table that the predictor reads, the builder's output after
  \<^verbatim>\<open>replace([inf, -inf], nan).fillna(0)\<close>, the columns \<open>hour_of_day\<close>, \<open>day_of_week\<close>,
  \<open>is_weekend\<close> and \<open>month\<close> are all 0 in a row whose upload date is absent or does not
  parse. In the builder's own output, a row whose date parses has
  \<open>day_of_week\<close> equal to the day of the week counted from Monday = 0, and \<open>is_weekend\<close>
  equal to 1 exactly when that day is 5 or 6.
\<close>

theorem time_features_zero_after_sanitize:
  assumes "\<not> df_empty df" and "wf_frame df" and "i < df_len df"
  shows "(no_upload_date df i \<longrightarrow>
            (\<forall>k \<in> set time_names. \<exists>xs. column (sanitize (build_features df)) k = Some xs
                \<and> length xs = df_len df \<and> xs ! i = Fin 0))
         \<and> (\<forall>col t. c_upload_date df = Some col \<and> col ! i = Parses t \<longrightarrow>
               (\<exists>ds ws. column (build_features df) ''day_of_week'' = Some ds
                   \<and> ds ! i = Fin (of_int (dayofweek t))
                   \<and> column (build_features df) ''is_weekend'' = Some ws
                   \<and> ws ! i = as_int (dayofweek t = 5 \<or> dayofweek t = 6)))"
proof (intro conjI impI allI ballI)
  fix k assume nd: "no_upload_date df i" and k: "k \<in> set time_names"
  let ?raw = "case c_upload_date df of
                None \<Rightarrow> replicate (df_len df) NaN
              | Some col \<Rightarrow> map (\<lambda>c. raw_time_cell k (to_datetime c)) col"
  have col: "column (sanitize (build_features df)) k = Some (map sanitize_cell ?raw)"
    by (simp add: column_sanitize build_features_time_column [OF assms(1,2) k])
  have len: "length ?raw = df_len df"
    using assms(2) by (auto simp: wf_frame_def col_ok_def split: option.splits)
  have "sanitize_cell (?raw ! i) = Fin 0"
  proof (cases "c_upload_date df")
    case None
    then show ?thesis using assms(3) by (simp add: sanitize_cell_def)
  next
    case (Some c)
    with assms(2) have "length c = df_len df" by (simp add: wf_frame_def col_ok_def)
    with Some nd assms(3) k show ?thesis
      by (auto simp: no_upload_date_def time_names_def raw_time_cell_def dt_field_def
          sanitize_cell_def as_int_def isin_def)
  qed
  then show "\<exists>xs. column (sanitize (build_features df)) k = Some xs
                \<and> length xs = df_len df \<and> xs ! i = Fin 0"
    using col len assms(3) by simp
next
  fix col t assume h: "c_upload_date df = Some col \<and> col ! i = Parses t"
  with assms(2) have l: "length col = df_len df" by (simp add: wf_frame_def col_ok_def)
  have d: "column (build_features df) ''day_of_week''
             = Some (map (\<lambda>c. raw_time_cell ''day_of_week'' (to_datetime c)) col)"
    using h by (simp add: build_features_time_column [OF assms(1,2)] time_names_def)
  have w: "column (build_features df) ''is_weekend''
             = Some (map (\<lambda>c. raw_time_cell ''is_weekend'' (to_datetime c)) col)"
    using h by (simp add: build_features_time_column [OF assms(1,2)] time_names_def)
  show "\<exists>ds ws. column (build_features df) ''day_of_week'' = Some ds
           \<and> ds ! i = Fin (of_int (dayofweek t))
           \<and> column (build_features df) ''is_weekend'' = Some ws
           \<and> ws ! i = as_int (dayofweek t = 5 \<or> dayofweek t = 6)"
    using h l assms(3) unfolding d w
    by (simp add: raw_time_cell_def dt_field_def isin_def)
qed

text \<open>
  The builder itself does not put 0 there: for a row whose date does not parse,
  \<open>hour_of_day\<close>, \<open>day_of_week\<close> and \<open>month\<close> are NaN.
\<close>

theorem unparseable_date_counterexample:
  "column (build_features (one_post (Some (ascii ''Hi'')) (Some ''instagram'') Unparseable))
     ''hour_of_day'' = Some [NaN]
   \<and> column (build_features (one_post (Some (ascii ''Hi'')) (Some ''instagram'') Unparseable))
     ''day_of_week'' = Some [NaN]
   \<and> column (build_features (one_post (Some (ascii ''Hi'')) (Some ''instagram'') Unparseable))
     ''month'' = Some [NaN]"
proof -
  let ?df = "one_post (Some (ascii ''Hi'')) (Some ''instagram'') Unparseable"
  have ok: "\<not> df_empty ?df" "wf_frame ?df" using one_post_ok by blast+
  have d: "c_upload_date ?df = Some [Unparseable]" by (simp add: one_post_def)
  have "column (build_features ?df) k = Some [raw_time_cell k None]"
    if "k \<in> set time_names" for k
    by (simp add: build_features_time_column [OF ok that] d)
  then show ?thesis
    by (simp add: time_names_def raw_time_cell_def dt_field_def)
qed

theorem time_features_zero_after_sanitize_witness:
  "no_upload_date (one_post None None Missing) 0
   \<and> (\<exists>xs. column (sanitize (build_features (one_post None None Missing))) ''hour_of_day''
               = Some xs \<and> xs ! 0 = Fin 0)
   \<and> (\<exists>xs. column (sanitize (build_features (one_post None None Missing))) ''day_of_week''
               = Some xs \<and> xs ! 0 = Fin 0)
   \<and> (\<exists>xs. column (sanitize (build_features (one_post None None Missing))) ''is_weekend''
               = Some xs \<and> xs ! 0 = Fin 0)
   \<and> (\<exists>xs. column (sanitize (build_features (one_post None None Missing))) ''month''
               = Some xs \<and> xs ! 0 = Fin 0)
   \<and> dayofweek saturday = 5
   \<and> (\<exists>ws. column (build_features (one_post None None (Parses saturday))) ''is_weekend''
              = Some ws \<and> ws ! 0 = Fin 1)"
proof -
  have a: "no_upload_date (one_post None None Missing) 0"
    by (simp add: no_upload_date_def one_post_def)
  have s: "dayofweek saturday = 5"
    by (simp add: dayofweek_def saturday_def days_from_civil_def Let_def)
  have l: "0 < df_len (one_post c p d)" for c p d by (simp add: one_post_def)
  have p: "c_upload_date (one_post None None (Parses saturday)) = Some [Parses saturday]
           \<and> [Parses saturday] ! 0 = Parses saturday"
    by (simp add: one_post_def)
  from time_features_zero_after_sanitize
         [OF one_post_ok [THEN conjunct1] one_post_ok [THEN conjunct2] l,
          of None None Missing] a
  have 1: "\<exists>xs. column (sanitize (build_features (one_post None None Missing))) k = Some xs
         \<and> xs ! 0 = Fin 0" if "k \<in> set time_names" for k
    using that by blast
  from time_features_zero_after_sanitize
         [OF one_post_ok [THEN conjunct1] one_post_ok [THEN conjunct2] l,
          of None None "Parses saturday"] p
  have 2: "\<exists>ws. column (build_features (one_post None None (Parses saturday))) ''is_weekend''
              = Some ws \<and> ws ! 0 = as_int (dayofweek saturday = 5 \<or> dayofweek saturday = 6)"
    by blast
  have 3: "\<exists>ws. column (build_features (one_post None None (Parses saturday))) ''is_weekend''
              = Some ws \<and> ws ! 0 = Fin 1"
    using 2 s by (simp add: as_int_def)
  show ?thesis
    using a s 3 1 [of "''hour_of_day''"] 1 [of "''day_of_week''"] 1 [of "''is_weekend''"]
      1 [of "''month''"]
    by (simp add: time_names_def)
qed



lemma build_features_index:
  assumes ne: "\<not> df_empty df" and wf: "wf_frame df"
  shows "ft_index (build_features df) = df_len df"
proof -
  let ?e = "\<lparr>ft_index = 0, ft_cols = []\<rparr>"
  let ?caps = "get_filled (df_len df) [] (c_caption df)"
  have n: "df_len df > 0" using ne by (simp add: df_empty_def)
  have lc: "length ?caps = df_len df"
    using wf by (simp add: wf_frame_def get_filled_length)
  then have cne: "?caps \<noteq> []" using n by auto
  have "ft_index (caption_features (time_features ?e (c_upload_date df)) ?caps) = df_len df"
  proof (cases "c_upload_date df")
    case None
    then show ?thesis using cne lc
      by (simp add: caption_features_index time_features_index_None)
  next
    case (Some col)
    with wf have "length col = df_len df" by (simp add: wf_frame_def col_ok_def)
    with n have "col \<noteq> []" by auto
    with Some \<open>length col = df_len df\<close> n show ?thesis
      by (simp add: caption_features_index time_features_index_Some)
  qed
  then show ?thesis
    using ne by (simp add: build_features_def Let_def index_set_scalar index_concat)
qed

lemma sanitize_index: "ft_index (sanitize t) = ft_index t"
  by (simp add: sanitize_def)

lemma names_put:
  "ft_names (put_column t c xs)
     = (if c \<in> set (ft_names t) then ft_names t else ft_names t @ [c])"
proof -
  have "map fst (map (\<lambda>p. if fst p = c then (c, xs) else p) ps) = map fst ps" for ps
    by (induction ps) auto
  then show ?thesis by (simp add: put_column_def ft_names_def)
qed

lemma names_set_series:
  "ft_names (set_series t c xs)
     = (if c \<in> set (ft_names t) then ft_names t else ft_names t @ [c])"
proof -
  have "ft_names \<lparr>ft_index = n, ft_cols = map (\<lambda>p. (fst p, replicate m NaN)) (ft_cols t)\<rparr>
          = ft_names t" for n m
    by (simp add: ft_names_def comp_def)
  then show ?thesis by (simp add: set_series_def Let_def names_put)
qed

lemma names_set_scalar:
  "ft_names (set_scalar t c v)
     = (if c \<in> set (ft_names t) then ft_names t else ft_names t @ [c])"
  by (simp add: set_scalar_def names_put)

lemma names_time_features:
  "ft_names (time_features \<lparr>ft_index = 0, ft_cols = []\<rparr> ud) = time_names"
proof (cases ud)
  case None
  then show ?thesis
    by (simp add: time_features_def names_set_scalar time_names_def) (simp add: ft_names_def)
next
  case (Some col)
  then show ?thesis
    by (simp add: time_features_def Let_def names_set_series time_names_def)
      (simp add: ft_names_def)
qed

lemma names_caption_features:
  assumes "ft_names t = time_names"
  shows "ft_names (caption_features t caps) = time_names @ caption_names"
  by (simp add: caption_features_def Let_def names_set_series assms time_names_def
      caption_names_def)

lemma names_build_features:
  "ft_names (build_features df)
     = (if df_empty df then []
        else time_names @ caption_names
             @ map (\<lambda>v. ''platform_'' @ v)
                 (sort (remdups (get_filled (df_len df) ''unknown'' (c_platform df))))
             @ [''avg_engagement_rate''])"
proof (cases "df_empty df")
  case True
  then show ?thesis by (simp add: build_features_def ft_names_def)
next
  case False
  let ?t = "caption_features (time_features \<lparr>ft_index = 0, ft_cols = []\<rparr> (c_upload_date df))
              (get_filled (df_len df) [] (c_caption df))"
  let ?d = "get_dummies ''platform'' (get_filled (df_len df) ''unknown'' (c_platform df))"
  have c: "ft_names (concat_columns ?t ?d)
             = time_names @ caption_names
               @ map (\<lambda>v. ''platform_'' @ v)
                   (sort (remdups (get_filled (df_len df) ''unknown'' (c_platform df))))"
    using names_caption_features [OF names_time_features]
    by (simp add: concat_columns_def get_dummies_def ft_names_def comp_def)
  have n: "''avg_engagement_rate'' \<notin> set (ft_names (concat_columns ?t ?d))"
    unfolding c by (auto simp: time_names_def caption_names_def)
  show ?thesis
    using False n by (simp add: build_features_def Let_def names_set_scalar c)
qed

lemma distinct_build_features: "distinct (ft_names (build_features df))"
proof -
  have "distinct (map (\<lambda>v. ''platform_'' @ v) vs)" if "distinct vs" for vs :: "string list"
    using that by (simp add: distinct_map inj_on_def)
  then have d: "distinct (map (\<lambda>v. ''platform_'' @ v)
                   (sort (remdups (get_filled (df_len df) ''unknown'' (c_platform df)))))"
    by simp
  show ?thesis
    using d by (auto simp: names_build_features time_names_def caption_names_def)
qed

lemma names_sanitize: "ft_names (sanitize t) = ft_names t"
  by (simp add: sanitize_def ft_names_def comp_def)

text \<open>
  The columns of the builder's table are distinct, so the alignment theorem applies to
  the feature row of every post and every schema captured at training.
\<close>

theorem align_feature_columns_exact_witness:
  "distinct (ft_names (sanitize (build_features
       (one_post (Some (ascii ''Hi'')) (Some ''instagram'') Missing))))
   \<and> (\<exists>t'. snd (align_feature_columns
                (sanitize (build_features
                   (one_post (Some (ascii ''Hi'')) (Some ''instagram'') Missing)))
                [''caption_length'', ''platform_instagram'', ''platform_youtube'']) = Inr t'
          \<and> ft_names t' = [''caption_length'', ''platform_instagram'', ''platform_youtube'']
          \<and> map_of (ft_cols t') ''platform_youtube'' = Some [Fin 0])"
proof -
  let ?df = "one_post (Some (ascii ''Hi'')) (Some ''instagram'') Missing"
  let ?t = "sanitize (build_features ?df)"
  let ?refs = "[''caption_length'', ''platform_instagram'', ''platform_youtube'']"
  have d: "distinct (ft_names ?t)" by (simp add: names_sanitize distinct_build_features)
  have ok: "\<not> df_empty ?df" "wf_frame ?df" using one_post_ok by blast+
  have i: "ft_index ?t = 1"
    by (simp add: sanitize_index build_features_index [OF ok]) (simp add: one_post_def)
  have pl: "get_filled (df_len ?df) ''unknown'' (c_platform ?df) = [''instagram'']"
    by (simp add: one_post_def get_filled_def)
  have "''platform_youtube'' \<notin> set (ft_names ?t)"
    using ok(1)
    by (simp add: names_sanitize names_build_features pl time_names_def caption_names_def)
  then have n: "map_of (ft_cols ?t) ''platform_youtube'' = None" by (rule lookup_absent)
  from align_feature_columns_exact [OF d, of ?refs] obtain t' where
    r: "snd (align_feature_columns ?t ?refs) = Inr t'" and nm: "ft_names t' = ?refs"
    and c: "\<forall>c \<in> set ?refs. map_of (ft_cols t') c =
              Some (case map_of (ft_cols ?t) c of
                      None \<Rightarrow> replicate (ft_index ?t) (Fin 0) | Some v \<Rightarrow> v)"
    by blast
  from c have "map_of (ft_cols t') ''platform_youtube'' = Some [Fin 0]"
    by (simp add: n i)
  with d r nm show ?thesis by blast
qed

subsection \<open>Engagement predictor\<close>

lemma py_int_Inr: "py_int x = Inr v \<longleftrightarrow> (\<exists>a. x = Fin a \<and> v = py_trunc a)"
  by (cases x) auto

lemma and_then_Inr: "and_then m f = Inr y \<longleftrightarrow> (\<exists>x. m = Inr x \<and> f x = Inr y)"
  by (cases m) (auto simp: and_then_def)

lemma clamped_output_Inr:
  "clamped_output model X = Inr v \<longleftrightarrow> (\<exists>y. raw_output model X = Inr (Fin y) \<and> v = max 0 (py_trunc y))"
  by (auto simp: clamped_output_def and_then_Inr py_int_Inr)

lemma clamped_output_finite:
  "(\<exists>v. clamped_output model X = Inr v) \<longleftrightarrow> finite_output model X"
  by (auto simp: clamped_output_Inr finite_output_def)





lemma prediction_result_fields:
  "prediction_result p l c v =
     \<lparr>predicted_likes = l, predicted_comments = c, predicted_views = v,
      predicted_engagement_rate = round_to 2 (engagement_rate_of l c v),
      virality_score = trained_virality (engagement_dist p) l c (engagement_rate_of l c v),
      confidence = (if p_is_trained p then ''high'' else ''medium''),
      recommendation =
        get_recommendation (trained_virality (engagement_dist p) l c (engagement_rate_of l c v)),
      pred_note = None\<rparr>"
  unfolding prediction_result_def engagement_rate_of_def Let_def by (rule refl)

lemma predict_trained_Inr:
  assumes "p_is_trained p"
  shows "predict_post_performance now p post = Inr r \<longleftrightarrow>
     (\<exists>X l c v. scaled_features now p post = Inr X
        \<and> clamped_output (model_likes p) X = Inr l
        \<and> clamped_output (model_comments p) X = Inr c
        \<and> (case model_views p of
              None \<Rightarrow> v = l * 5
            | Some mv \<Rightarrow> clamped_output (Some mv) X = Inr v)
        \<and> r = prediction_result p l c v)"
  using assms
  by (cases "model_views p")
    (auto simp: predict_post_performance_def and_then_Inr)

text \<open>
  C3 (as amended). On a trained predictor, \<open>predict_post_performance\<close> returns a result
  exactly when the scaler and the models answer the post with finite numbers. The
  result then has \<open>predicted_likes\<close>, \<open>predicted_comments\<close> and \<open>predicted_views\<close> as
  non-negative integers, each the raw model output truncated towards zero and clamped
  at 0, \<open>max(0, int(prediction))\<close>; without a views model, \<open>predicted_views\<close> is
  \<open>predicted_likes * 5\<close>.
\<close>

theorem predict_clamps_by_truncation:
  assumes "p_is_trained p"
  shows "((\<exists>r. predict_post_performance now p post = Inr r) \<longleftrightarrow> models_answer now p post)
         \<and> (\<forall>r. predict_post_performance now p post = Inr r \<longrightarrow>
               (\<exists>X l c. scaled_features now p post = Inr X
                  \<and> raw_output (model_likes p) X = Inr (Fin l)
                  \<and> raw_output (model_comments p) X = Inr (Fin c)
                  \<and> predicted_likes r = max 0 (py_trunc l)
                  \<and> predicted_comments r = max 0 (py_trunc c)
                  \<and> (case model_views p of
                        None \<Rightarrow> predicted_views r = predicted_likes r * 5
                      | Some mv \<Rightarrow> \<exists>v. raw_output (Some mv) X = Inr (Fin v)
                                     \<and> predicted_views r = max 0 (py_trunc v))
                  \<and> 0 \<le> predicted_likes r \<and> 0 \<le> predicted_comments r
                  \<and> 0 \<le> predicted_views r))"
proof (intro conjI allI impI)
  show "(\<exists>r. predict_post_performance now p post = Inr r) \<longleftrightarrow> models_answer now p post"
  proof (cases "model_views p")
    case None
    then show ?thesis
      by (simp add: predict_trained_Inr [OF assms] models_answer_def
          clamped_output_finite [symmetric]) blast
  next
    case (Some mv)
    then show ?thesis
      by (simp add: predict_trained_Inr [OF assms] models_answer_def
          clamped_output_finite [symmetric]) blast
  qed
next
  fix r assume "predict_post_performance now p post = Inr r"
  then obtain X l c v where X: "scaled_features now p post = Inr X"
    and l: "clamped_output (model_likes p) X = Inr l"
    and c: "clamped_output (model_comments p) X = Inr c"
    and v: "case model_views p of None \<Rightarrow> v = l * 5
            | Some mv \<Rightarrow> clamped_output (Some mv) X = Inr v"
    and r: "r = prediction_result p l c v"
    using predict_trained_Inr [OF assms] by blast
  from l obtain yl where yl: "raw_output (model_likes p) X = Inr (Fin yl)" "l = max 0 (py_trunc yl)"
    by (auto simp: clamped_output_Inr)
  from c obtain yc where yc: "raw_output (model_comments p) X = Inr (Fin yc)" "c = max 0 (py_trunc yc)"
    by (auto simp: clamped_output_Inr)
  have fields: "predicted_likes r = l" "predicted_comments r = c" "predicted_views r = v"
    by (simp_all add: r prediction_result_fields)
  have views: "(case model_views p of
                  None \<Rightarrow> predicted_views r = predicted_likes r * 5
                | Some mv \<Rightarrow> \<exists>y. raw_output (Some mv) X = Inr (Fin y)
                               \<and> predicted_views r = max 0 (py_trunc y)) \<and> 0 \<le> v"
    using v yl(2) by (cases "model_views p") (auto simp: fields clamped_output_Inr)
  show "\<exists>X l c. scaled_features now p post = Inr X
          \<and> raw_output (model_likes p) X = Inr (Fin l)
          \<and> raw_output (model_comments p) X = Inr (Fin c)
          \<and> predicted_likes r = max 0 (py_trunc l)
          \<and> predicted_comments r = max 0 (py_trunc c)
          \<and> (case model_views p of
                None \<Rightarrow> predicted_views r = predicted_likes r * 5
              | Some mv \<Rightarrow> \<exists>v. raw_output (Some mv) X = Inr (Fin v)
                             \<and> predicted_views r = max 0 (py_trunc v))
          \<and> 0 \<le> predicted_likes r \<and> 0 \<le> predicted_comments r
          \<and> 0 \<le> predicted_views r"
    using X yl yc views fields by auto
qed

lemma example_scaled: "scaled_features now example_predictor post = Inr [[Fin 0]]"
proof -
  obtain X where
    "snd (align_feature_columns
           (sanitize (build_features
              (one_post (Some (get_or [] (pd_caption post)))
                 (Some (get_or ''instagram'' (pd_platform post)))
                 (get_or (Parses now) (pd_scheduled_time post)))))
           (feature_names example_predictor)) = Inr X"
    using align_never_missing by blast
  then show ?thesis
    by (simp add: scaled_features_def Let_def and_then_def example_predictor_def)
qed

lemma example_prediction:
  "predict_post_performance now example_predictor post
     = Inr (prediction_result example_predictor 2 0 10)"
proof -
  have t: "p_is_trained example_predictor" by (simp add: example_predictor_def)
  have l: "clamped_output (model_likes example_predictor) [[Fin 0]] = Inr 2"
    by (simp add: clamped_output_def raw_output_def example_predictor_def and_then_def
        first_entry_def py_trunc_def)
  have c: "clamped_output (model_comments example_predictor) [[Fin 0]] = Inr 0"
    by (simp add: clamped_output_def raw_output_def example_predictor_def and_then_def
        first_entry_def py_trunc_def)
  have v: "model_views example_predictor = None" by (simp add: example_predictor_def)
  show ?thesis
    by (simp add: predict_trained_Inr [OF t] example_scaled l c v)
qed

text \<open>
  The clamp does not round: a raw likes output of 2.7 is reported as 2, where
  \<open>max(0, round(2.7))\<close> is 3.
\<close>

theorem truncation_not_rounding_counterexample:
  "map_sum id predicted_likes (predict_post_performance saturday example_predictor example_post)
     = Inr 2
   \<and> raw_output (model_likes example_predictor) [[Fin 0]] = Inr (Fin (27 / 10))
   \<and> max 0 (py_round (27 / 10)) = 3"
  by (simp add: example_prediction prediction_result_fields)
    (simp add: raw_output_def example_predictor_def and_then_def first_entry_def py_round_def)

theorem predict_clamps_by_truncation_witness:
  "p_is_trained example_predictor
   \<and> models_answer saturday example_predictor example_post
   \<and> predict_post_performance saturday example_predictor example_post
       = Inr (prediction_result example_predictor 2 0 10)
   \<and> predicted_views (prediction_result example_predictor 2 0 10)
       = predicted_likes (prediction_result example_predictor 2 0 10) * 5"
proof -
  have t: "p_is_trained example_predictor" by (simp add: example_predictor_def)
  have v: "model_views example_predictor = None" by (simp add: example_predictor_def)
  note th = predict_clamps_by_truncation [OF t, of saturday example_post]
  have m: "models_answer saturday example_predictor example_post"
    using th example_prediction by blast
  have "predicted_views (prediction_result example_predictor 2 0 10)
          = predicted_likes (prediction_result example_predictor 2 0 10) * 5"
    using th example_prediction [of saturday example_post] v by auto
  with t m example_prediction show ?thesis by simp
qed






subsection \<open>Anomaly detector\<close>













lemma numeric_frame_columns:
  "c_likes (numeric_frame ls cs vs fo) = Some ls"
  "c_comments (numeric_frame ls cs vs fo) = Some cs"
  "c_views (numeric_frame ls cs vs fo) = Some vs"
  "c_followers (numeric_frame ls cs vs fo) = fo"
  "c_shares (numeric_frame ls cs vs fo) = None"
  "c_caption (numeric_frame ls cs vs fo) = None"
  "c_responsiveness_index (numeric_frame ls cs vs fo) = None"
  "df_len (numeric_frame ls cs vs fo) = length ls"
  by (simp_all add: numeric_frame_def)




lemma wf_frame_cols:
  assumes "wf_frame df"
  shows "col_ok (df_len df) (c_comments df)" "col_ok (df_len df) (c_followers df)"
    "col_ok (df_len df) (c_shares df)" "col_ok (df_len df) (c_likes df)"
    "col_ok (df_len df) (c_views df)"
  using assms by (simp_all add: wf_frame_def)

lemma col_ok_Some: "col_ok n (Some xs) \<longleftrightarrow> length xs = n"
  by (simp add: col_ok_def)



lemma numeric_frame_wf:
  "length cs = length ls \<Longrightarrow> length vs = length ls
   \<Longrightarrow> (case fo of None \<Rightarrow> True | Some f \<Rightarrow> length f = length ls)
   \<Longrightarrow> wf_frame (numeric_frame ls cs vs fo)"
  by (cases fo) (simp_all add: wf_frame_def numeric_frame_def col_ok_def)



lemma untrained_delegates:
  "\<not> d_is_trained det \<Longrightarrow> baseline_metrics det = []
   \<Longrightarrow> detect_anomalies det df = rule_based_detection df"
  by (simp add: detect_anomalies_def)




text \<open>
  With a baseline in place the learned path still raises on a flagged row whose
  caption cell is missing: the alert message slices the caption.
\<close>

lemma ml_anomaly_missing_caption:
  assumes "idx < df_len df" and "idx < length scores"
    and "map_of (baseline_metrics det) ''avg_likes'' = Some a"
    and "map_of (baseline_metrics det) ''avg_comments'' = Some c"
    and "c_caption df = Some caps" and "caps ! idx = None"
  shows "ml_anomaly det df scores idx = Inl TypeError"
  using assms
  by (simp add: ml_anomaly_def classify_anomaly_type_def generate_alert_message_def
      baseline_get_def and_then_def row_get_def Let_def)


subsection \<open>Training\<close>



lemma count_mask: "length (filter id (map P zs)) = length (filter P zs)"
  by (induction zs) auto

lemma fit_models_works:
  assumes "sklearn_works sk"
  shows "\<exists>p' fitted. fit_models sk p X yl yc yv = (p', Inr fitted)"
proof -
  from assms obtain sc Xs where f: "scaler_fit_transform sk X = Inr (sc, Xs)"
    unfolding sklearn_works_def by (metis surj_pair)
  obtain a b c d where s1: "train_test_split sk Xs yl = (a, b, c, d)"
    by (metis surj_pair)
  obtain a' b' c' d' where s2: "train_test_split sk Xs yc = (a', b', c', d')"
    by (metis surj_pair)
  from assms obtain ml where ml: "gbr_fit sk a c = Inr ml"
    unfolding sklearn_works_def by blast
  from assms obtain mc where mc: "gbr_fit sk a c' = Inr mc"
    unfolding sklearn_works_def by blast
  from assms obtain mv where mv:
    "gbr_fit sk (mask_col (map (\<lambda>v. fl_greater v (Fin 0)) yv) Xs)
       (mask_col (map (\<lambda>v. fl_greater v (Fin 0)) yv) yv) = Inr mv"
    unfolding sklearn_works_def by blast
  from assms obtain r1 r2 r3 r4 where r:
    "gbr_score sk ml a c = Inr r1" "gbr_score sk ml b d = Inr r2"
    "gbr_score sk mc a c' = Inr r3" "gbr_score sk mc b d' = Inr r4"
    unfolding sklearn_works_def by metis
  show ?thesis
    by (simp add: fit_models_def f s1 s2 ml mc mv r and_then_def Let_def)
qed


lemma finish_training_result:
  "\<exists>q objs scores.
     finish_training now st p X yl yc fitted
       = ((q, save_feature_names
                (save_all st PREDICTOR_VERSION objs
                   (training_metadata now q X scores
                      (quantile_table (np_sort (col_map2 fl_add yl yc)))))
                (feature_names q)),
          Success PREDICTOR_VERSION
            (training_metadata now q X scores (quantile_table (np_sort (col_map2 fl_add yl yc)))))
     \<and> ''predictor_likes'' \<in> fst ` set objs
     \<and> engagement_dist q = Some (np_sort (col_map2 fl_add yl yc),
                                 quantile_table (np_sort (col_map2 fl_add yl yc)))"
proof -
  obtain sc ml mc scores where f: "fitted = (sc, ml, mc, scores)" by (metis surj_pair)
  show ?thesis
    unfolding f finish_training_def Let_def prod.case
    by (intro exI conjI) (rule refl, simp_all)
qed


lemma predictor_fit_works:
  assumes "sklearn_works sk"
  shows "\<exists>after meta. predictor_fit sk now st p X yl yc yv
            = (after, Inr (Success PREDICTOR_VERSION meta))"
proof -
  from fit_models_works [OF assms] obtain p' fitted
    where f: "fit_models sk p X yl yc yv = (p', Inr fitted)" by blast
  from finish_training_result [of now st p' X yl yc fitted]
  show ?thesis by (auto simp: predictor_fit_def f)
qed





lemma train_predictor_run:
  assumes "SKLEARN_AVAILABLE sk" and "\<not> df_len df < 50" and "c_likes df = Some ls"
    and "c_comments df = Some cs" and "c_views df = Some vs"
  shows "train_predictor sk now st p df =
     (if ft_index (mask_rows (valid_mask df) (sanitize (build_features df))) < 30
      then ((p\<lparr>feature_names := ft_names (sanitize (build_features df))\<rparr>, st),
            Inr (Error ''Not enough valid data after filtering''))
      else predictor_fit sk now st (p\<lparr>feature_names := ft_names (sanitize (build_features df))\<rparr>)
             (mask_rows (valid_mask df) (sanitize (build_features df)))
             (mask_col (valid_mask df) (fillna (Fin 0) ls))
             (mask_col (valid_mask df) (fillna (Fin 0) cs))
             (mask_col (valid_mask df) (fillna (Fin 0) vs)))"
  using assms
  by (simp add: train_predictor_def valid_mask_def get_or_def MIN_TRAIN_SAMPLES_PREDICTOR_def
      Let_def)




lemma positive_not_nan: "fl_greater x (Fin 0) \<Longrightarrow> \<not> isnan x"
  by (cases x) (simp_all add: fl_greater_def)

lemma fillna_positive: "list_all (\<lambda>x. fl_greater x (Fin 0)) xs \<Longrightarrow> fillna v xs = xs"
  by (induction xs) (auto simp: fillna_def positive_not_nan)

lemma filter_zip_all:
  "list_all P xs \<Longrightarrow> list_all Q ys \<Longrightarrow> filter (\<lambda>p. P (fst p) \<and> Q (snd p)) (zip xs ys) = zip xs ys"
proof (induction xs arbitrary: ys)
  case Nil
  then show ?case by simp
next
  case (Cons x xs)
  then show ?case by (cases ys) auto
qed

lemma valid_rows_no_loss:
  assumes "wf_frame df" and "c_likes df = Some ls" and "c_comments df = Some cs"
    and "no_filter_loss df"
  shows "length (valid_rows df) = df_len df"
proof -
  have l: "length ls = df_len df" "length cs = df_len df"
    using wf_frame_cols(4) [OF assms(1)] wf_frame_cols(1) [OF assms(1)] assms(2,3)
    by (simp_all add: col_ok_Some)
  have p: "list_all (\<lambda>x. fl_greater x (Fin 0)) ls" "list_all (\<lambda>x. fl_greater x (Fin 0)) cs"
    using assms(2,3,4) by (simp_all add: no_filter_loss_def get_or_def)
  show ?thesis
    using l by (simp add: valid_rows_def assms(2,3) get_or_def fillna_positive [OF p(1)]
        fillna_positive [OF p(2)] filter_zip_all [OF p])
qed

lemma frame_not_empty: "0 < df_len df \<Longrightarrow> c_likes df = Some ls \<Longrightarrow> \<not> df_empty df"
  by (simp add: df_empty_def df_ncols_def present_def)

lemma filtered_index:
  assumes "wf_frame df" and "0 < df_len df" and "c_likes df = Some ls"
    and "c_comments df = Some cs"
  shows "ft_index (mask_rows (valid_mask df) (sanitize (build_features df)))
           = length (valid_rows df)"
proof -
  have l: "length ls = df_len df" "length cs = df_len df"
    using wf_frame_cols(4) [OF assms(1)] wf_frame_cols(1) [OF assms(1)] assms(3,4)
    by (simp_all add: col_ok_Some)
  have i: "ft_index (sanitize (build_features df)) = df_len df"
    by (simp add: sanitize_index build_features_index [OF frame_not_empty [OF assms(2,3)] assms(1)])
  have m: "length (valid_mask df) = df_len df"
    using l by (simp add: valid_mask_def assms(3,4) get_or_def fillna_def)
  show ?thesis
    using m by (simp add: mask_rows_def i) (simp add: valid_mask_def valid_rows_def count_mask)
qed

lemma train_predictor_success:
  assumes "sklearn_works sk" and "wf_frame df" and "50 \<le> df_len df" and "has_targets df"
    and "30 \<le> length (valid_rows df)"
  shows "\<exists>after meta. train_predictor sk now st p df
            = (after, Inr (Success PREDICTOR_VERSION meta))"
proof -
  from assms(4) obtain ls cs vs where c: "c_likes df = Some ls" "c_comments df = Some cs"
    "c_views df = Some vs"
    by (auto simp: has_targets_def)
  have a: "SKLEARN_AVAILABLE sk" using assms(1) by (simp add: sklearn_works_def)
  have b: "\<not> df_len df < 50" "0 < df_len df" using assms(3) by simp_all
  have n: "\<not> ft_index (mask_rows (valid_mask df) (sanitize (build_features df))) < 30"
    using assms(5) by (simp add: filtered_index [OF assms(2) b(2) c(1,2)])
  show ?thesis
    using predictor_fit_works [OF assms(1)] n
    by (simp add: train_predictor_run [OF a b(1) c])
qed

lemma fl_sum_finite:
  assumes "\<forall>x \<in> set xs. \<exists>r. x = Fin r"
  shows "\<exists>s. foldl fl_add (Fin a) xs = Fin s"
  using assms
proof (induction xs arbitrary: a)
  case Nil
  then show ?case by simp
next
  case (Cons x xs)
  then obtain r where "x = Fin r" by auto
  with Cons show ?case by simp
qed

lemma dropna_finite:
  assumes "list_all (\<lambda>x. \<not> is_inf x) xs"
  shows "\<forall>x \<in> set (dropna xs). \<exists>r. x = Fin r"
proof
  fix x assume "x \<in> set (dropna xs)"
  then have "x \<in> set xs" "\<not> isnan x" by (simp_all add: dropna_def)
  with assms have "\<not> is_inf x" by (simp add: list_all_iff)
  with \<open>\<not> isnan x\<close> show "\<exists>r. x = Fin r" by (cases x) simp_all
qed

lemma mean_finite:
  assumes "list_all (\<lambda>x. \<not> is_inf x) xs"
  shows "\<exists>r. nan_to_zero (mean xs) = Fin r"
proof (cases "dropna xs = []")
  case True
  then show ?thesis by (simp add: mean_def nan_to_zero_def)
next
  case False
  from fl_sum_finite [OF dropna_finite [OF assms], of 0]
  obtain s where "fl_sum (dropna xs) = Fin s" by (auto simp: fl_sum_def)
  with False show ?thesis
    by (simp add: mean_def nan_to_zero_def fl_of_nat_def Let_def)
qed

lemma py_int_finite: "\<exists>n. py_int (Fin r) = Inr n"
  by simp

lemma baseline_after:
  assumes "c_likes df = Some ls" and "c_comments df = Some cs"
  shows "\<exists>m. calculate_baseline det df = (det\<lparr>baseline_metrics := m\<rparr>, Inr m)
           \<and> map_of m ''avg_likes'' = Some (nan_to_zero (mean ls))
           \<and> map_of m ''avg_comments'' = Some (nan_to_zero (mean cs))"
  using assms by (simp add: calculate_baseline_def Let_def)

lemma train_features_ok:
  assumes "c_likes df = Some ls" and "c_comments df = Some cs" and "c_views df = Some vs"
  shows "\<exists>t. train_features df = Inr t"
  using assms by (simp add: train_features_def)

lemma train_detector_success:
  assumes "sklearn_works sk" and "30 \<le> df_len df" and "has_targets df" and "finite_targets df"
  shows "\<exists>after meta. train_detector sk now st det df
            = (after, Inr (Success ANOMALY_VERSION meta))"
proof -
  from assms(3) obtain ls cs vs where c: "c_likes df = Some ls" "c_comments df = Some cs"
    "c_views df = Some vs"
    by (auto simp: has_targets_def)
  have a: "SKLEARN_AVAILABLE sk" using assms(1) by (simp add: sklearn_works_def)
  have b: "\<not> df_len df < MIN_TRAIN_SAMPLES_DETECTOR"
    using assms(2) by (simp add: MIN_TRAIN_SAMPLES_DETECTOR_def)
  from baseline_after [OF c(1,2), of det] obtain m where
    m: "calculate_baseline det df = (det\<lparr>baseline_metrics := m\<rparr>, Inr m)"
    and ml: "map_of m ''avg_likes'' = Some (nan_to_zero (mean ls))"
    and mc: "map_of m ''avg_comments'' = Some (nan_to_zero (mean cs))"
    by blast
  from train_features_ok [OF c] obtain t where t: "train_features df = Inr t" ..
  from assms(1) obtain sc Xs where f: "scaler_fit_transform sk t = Inr (sc, Xs)"
    unfolding sklearn_works_def by (metis surj_pair)
  from assms(1) obtain om where om: "iforest_fit sk Xs = Inr om"
    unfolding sklearn_works_def by blast
  have fin: "list_all (\<lambda>x. \<not> is_inf x) ls" "list_all (\<lambda>x. \<not> is_inf x) cs"
    using assms(4) c by (simp_all add: finite_targets_def get_or_def)
  from mean_finite [OF fin(1)] obtain rl where rl: "nan_to_zero (mean ls) = Fin rl" ..
  from mean_finite [OF fin(2)] obtain rc where rc: "nan_to_zero (mean cs) = Fin rc" ..
  show ?thesis
    using a b
    by (simp add: train_detector_def m t f om baseline_get_def ml mc rl rc and_then_def Let_def)
qed

lemma train_too_few:
  assumes "SKLEARN_AVAILABLE sk"
  shows "df_len df < MIN_TRAIN_SAMPLES_PREDICTOR \<Longrightarrow>
           snd (train_predictor sk now st p df)
             = Inr (Error ''Not enough data to train (need at least 50 posts)'')"
    and "df_len df < MIN_TRAIN_SAMPLES_DETECTOR \<Longrightarrow>
           snd (train_detector sk now st det df)
             = Inr (Error ''Not enough data to train (need at least 30 posts)'')"
  using assms by (simp_all add: train_predictor_def train_detector_def)

text \<open>
  C8. With scikit-learn available and its calls returning: a batch below the minimum,
  50 posts for the predictor and 30 for the detector, makes \<open>train\<close> return the
  not-enough-data error; a batch of at least the minimum that has the target columns
  makes it return success, for the predictor when no row is lost to the target
  filter, for the detector when no likes or comments cell is infinite.
\<close>

theorem sample_gate:
  assumes "sklearn_works sk"
  shows "(df_len df < MIN_TRAIN_SAMPLES_PREDICTOR \<longrightarrow>
            snd (train_predictor sk now st p df)
              = Inr (Error ''Not enough data to train (need at least 50 posts)''))
         \<and> (MIN_TRAIN_SAMPLES_PREDICTOR \<le> df_len df \<and> wf_frame df \<and> has_targets df
              \<and> no_filter_loss df \<longrightarrow>
            (\<exists>meta. snd (train_predictor sk now st p df)
                      = Inr (Success PREDICTOR_VERSION meta)))
         \<and> (df_len df < MIN_TRAIN_SAMPLES_DETECTOR \<longrightarrow>
            snd (train_detector sk now st det df)
              = Inr (Error ''Not enough data to train (need at least 30 posts)''))
         \<and> (MIN_TRAIN_SAMPLES_DETECTOR \<le> df_len df \<and> has_targets df \<and> finite_targets df \<longrightarrow>
            (\<exists>meta. snd (train_detector sk now st det df)
                      = Inr (Success ANOMALY_VERSION meta)))"
proof (intro conjI impI)
  have a: "SKLEARN_AVAILABLE sk" using assms by (simp add: sklearn_works_def)
  show "snd (train_predictor sk now st p df)
          = Inr (Error ''Not enough data to train (need at least 50 posts)'')"
    if "df_len df < MIN_TRAIN_SAMPLES_PREDICTOR"
    using train_too_few(1) [OF a that] .
  show "snd (train_detector sk now st det df)
          = Inr (Error ''Not enough data to train (need at least 30 posts)'')"
    if "df_len df < MIN_TRAIN_SAMPLES_DETECTOR"
    using train_too_few(2) [OF a that] .
  show "\<exists>meta. snd (train_predictor sk now st p df) = Inr (Success PREDICTOR_VERSION meta)"
    if h: "MIN_TRAIN_SAMPLES_PREDICTOR \<le> df_len df \<and> wf_frame df \<and> has_targets df
           \<and> no_filter_loss df"
  proof -
    from h have n: "50 \<le> df_len df" by (simp add: MIN_TRAIN_SAMPLES_PREDICTOR_def)
    from h obtain ls cs where c: "c_likes df = Some ls" "c_comments df = Some cs"
      by (auto simp: has_targets_def)
    have "length (valid_rows df) = df_len df"
      using valid_rows_no_loss [OF _ c] h by blast
    with n have v: "30 \<le> length (valid_rows df)" by simp
    from h have w: "wf_frame df" and t: "has_targets df" by simp_all
    from train_predictor_success [OF assms w n t v]
    show ?thesis by (metis snd_conv)
  qed
  show "\<exists>meta. snd (train_detector sk now st det df) = Inr (Success ANOMALY_VERSION meta)"
    if h: "MIN_TRAIN_SAMPLES_DETECTOR \<le> df_len df \<and> has_targets df \<and> finite_targets df"
  proof -
    from h have n: "30 \<le> df_len df" by (simp add: MIN_TRAIN_SAMPLES_DETECTOR_def)
    from h have t: "has_targets df" and f: "finite_targets df" by simp_all
    from train_detector_success [OF assms n t f]
    show ?thesis by (metis snd_conv)
  qed
qed

lemma stub_sklearn_works: "sklearn_works stub_sklearn"
  by (simp add: sklearn_works_def stub_sklearn_def)

lemma uniform_batch_facts:
  "df_len (uniform_batch n) = n" "wf_frame (uniform_batch n)" "has_targets (uniform_batch n)"
  "no_filter_loss (uniform_batch n)" "finite_targets (uniform_batch n)"
proof -
  show "df_len (uniform_batch n) = n" by (simp add: uniform_batch_def numeric_frame_columns)
  show "wf_frame (uniform_batch n)"
    unfolding uniform_batch_def by (rule numeric_frame_wf) simp_all
  show "has_targets (uniform_batch n)"
    by (simp add: has_targets_def uniform_batch_def numeric_frame_columns)
  show "no_filter_loss (uniform_batch n)"
    by (simp add: no_filter_loss_def uniform_batch_def numeric_frame_columns get_or_def
        list_all_iff fl_greater_def)
  show "finite_targets (uniform_batch n)"
    by (simp add: finite_targets_def uniform_batch_def numeric_frame_columns get_or_def
        list_all_iff)
qed

theorem sample_gate_witness:
  "sklearn_works stub_sklearn
   \<and> snd (train_predictor stub_sklearn example_now empty_store (new_predictor True)
            (uniform_batch 49))
       = Inr (Error ''Not enough data to train (need at least 50 posts)'')
   \<and> (\<exists>meta. snd (train_predictor stub_sklearn example_now empty_store (new_predictor True)
                    (uniform_batch 50))
               = Inr (Success PREDICTOR_VERSION meta))
   \<and> snd (train_detector stub_sklearn example_now empty_store (new_detector True)
            (uniform_batch 29))
       = Inr (Error ''Not enough data to train (need at least 30 posts)'')
   \<and> (\<exists>meta. snd (train_detector stub_sklearn example_now empty_store (new_detector True)
                    (uniform_batch 30))
               = Inr (Success ANOMALY_VERSION meta))"
proof -
  note g = sample_gate [OF stub_sklearn_works, of _ example_now empty_store "new_predictor True"
      "new_detector True"]
  have 1: "snd (train_predictor stub_sklearn example_now empty_store (new_predictor True)
            (uniform_batch 49))
       = Inr (Error ''Not enough data to train (need at least 50 posts)'')"
    using g [of "uniform_batch 49"]
    by (simp add: uniform_batch_facts(1) MIN_TRAIN_SAMPLES_PREDICTOR_def)
  have 2: "\<exists>meta. snd (train_predictor stub_sklearn example_now empty_store (new_predictor True)
                    (uniform_batch 50))
               = Inr (Success PREDICTOR_VERSION meta)"
    using g [of "uniform_batch 50"]
    by (simp add: uniform_batch_facts MIN_TRAIN_SAMPLES_PREDICTOR_def)
  have 3: "snd (train_detector stub_sklearn example_now empty_store (new_detector True)
            (uniform_batch 29))
       = Inr (Error ''Not enough data to train (need at least 30 posts)'')"
    using g [of "uniform_batch 29"]
    by (simp add: uniform_batch_facts(1) MIN_TRAIN_SAMPLES_DETECTOR_def)
  have 4: "\<exists>meta. snd (train_detector stub_sklearn example_now empty_store (new_detector True)
                    (uniform_batch 30))
               = Inr (Success ANOMALY_VERSION meta)"
    using g [of "uniform_batch 30"]
    by (simp add: uniform_batch_facts MIN_TRAIN_SAMPLES_DETECTOR_def)
  show ?thesis using stub_sklearn_works 1 2 3 4 by blast
qed




end
